theory Spec2Isabelle
  imports Complex_Main
begin

section \<open>Values of the host language\<close>

text \<open>
  The compiler works on untyped JavaScript values: legend property values, encode blocks,
  selection initial values. An object is an association list, so that the insertion order
  of its keys (the order of \<^verbatim>\<open>keys(obj)\<close>) is kept; \<^verbatim>\<open>undefined\<close> is the absence of a
  key, that is \<open>None\<close> of a lookup.
\<close>

datatype json =
    JNull
  | JBool bool
  | JNum real
  | JStr string
  | JArr "json list"
  | JObj "(string \<times> json) list"

datatype error =
    TypeError
  | SelectionNotFound string
  | SyntaxError

text \<open>\<^verbatim>\<open>!!v\<close>: the truthiness of a defined value.\<close>

fun truthy :: "json \<Rightarrow> bool" where
  "truthy JNull = False"
| "truthy (JBool b) = b"
| "truthy (JNum n) = (n \<noteq> 0)"
| "truthy (JStr s) = (s \<noteq> [])"
| "truthy (JArr xs) = True"
| "truthy (JObj kvs) = True"

text \<open>\<^verbatim>\<open>isArray(v)\<close>.\<close>

fun isArray :: "json \<Rightarrow> bool" where
  "isArray (JArr xs) = True"
| "isArray v = False"

text \<open>\<^verbatim>\<open>v[k]\<close> for a string key; only objects carry the keys the compiler reads.\<close>

fun js_get :: "json \<Rightarrow> string \<Rightarrow> json option" where
  "js_get (JObj kvs) k = map_of kvs k"
| "js_get v k = None"

text \<open>\<^verbatim>\<open>obj[k] = v\<close> on the key list of an object: an existing key keeps its place, a new
  key goes last.\<close>

fun obj_set :: "('k \<times> 'v) list \<Rightarrow> 'k \<Rightarrow> 'v \<Rightarrow> ('k \<times> 'v) list" where
  "obj_set [] k v = [(k, v)]"
| "obj_set ((k', v') # kvs) k v =
     (if k' = k then (k, v) # kvs else (k', v') # obj_set kvs k v)"

text \<open>\<^verbatim>\<open>delete obj[k]\<close>.\<close>

definition obj_delete :: "('k \<times> 'v) list \<Rightarrow> 'k \<Rightarrow> ('k \<times> 'v) list" where
  "obj_delete kvs k = filter (\<lambda>kv. fst kv \<noteq> k) kvs"

text \<open>\<^verbatim>\<open>xs.join(sep)\<close> on strings.\<close>

fun join :: "string \<Rightarrow> string list \<Rightarrow> string" where
  "join sep [] = []"
| "join sep [x] = x"
| "join sep (x # y # ys) = x @ sep @ join sep (y # ys)"

text \<open>\<^verbatim>\<open>a.indexOf(v)\<close>: the first position of \<open>v\<close>, or \<open>-1\<close>.\<close>

fun indexOf :: "'a list \<Rightarrow> 'a \<Rightarrow> int" where
  "indexOf [] v = -1"
| "indexOf (x # xs) v =
     (if x = v then 0 else (let i = indexOf xs v in if i = -1 then -1 else i + 1))"

text \<open>\<^verbatim>\<open>a.filter((v, i, a) => a.indexOf(v) === i)\<close>: the elements at their first position.\<close>

definition unique :: "'a list \<Rightarrow> 'a list" where
  "unique a = map fst (filter (\<lambda>(v, i). indexOf a v = int i) (zip a [0..<length a]))"

text \<open>\<^verbatim>\<open>[].concat.apply([], xss)\<close>.\<close>

definition flatten :: "'a list list \<Rightarrow> 'a list" where
  "flatten xss = concat xss"

section \<open>Expression assembler: initial values\<close>

text \<open>
  \<^verbatim>\<open>assembleInit(init, wrap = identity)\<close>. The recogniser \<^verbatim>\<open>isDateTime\<close> and the
  constructor \<^verbatim>\<open>dateTimeExpr\<close> of the date-time module, and the host's
  \<^verbatim>\<open>JSON.stringify\<close>, are parameters. The first equation is the branch \<^verbatim>\<open>isArray(init)\<close>.
\<close>

fun assembleInit ::
  "(json \<Rightarrow> bool) \<Rightarrow> (json \<Rightarrow> string) \<Rightarrow> (json \<Rightarrow> string) \<Rightarrow> (string \<Rightarrow> string) \<Rightarrow> json \<Rightarrow> string"
where
  "assembleInit isDateTime dateTimeExpr stringify wrap (JArr init) =
     ''['' @ join '', '' (map (assembleInit isDateTime dateTimeExpr stringify wrap) init) @ '']''"
| "assembleInit isDateTime dateTimeExpr stringify wrap init =
     (if isDateTime init then wrap (dateTimeExpr init) else wrap (stringify init))"

definition identity :: "string \<Rightarrow> string" where
  "identity s = s"

text \<open>The value \<^verbatim>\<open>[{year: 2020, month: 1, date: 1}, 5]\<close>.\<close>

definition date_2020_01_01 :: json where
  "date_2020_01_01 = JObj [(''year'', JNum 2020), (''month'', JNum 1), (''date'', JNum 1)]"

definition init_example :: json where
  "init_example = JArr [date_2020_01_01, JNum 5]"

section \<open>Selection components and unit models\<close>

text \<open>
  Modelled from the spec: the suffix constants \<^verbatim>\<open>STORE\<close>, \<^verbatim>\<open>TUPLE\<close>, \<^verbatim>\<open>MODIFY\<close> and
  \<^verbatim>\<open>LEGEND\<close> and the function name \<^verbatim>\<open>VL_SELECTION_TEST\<close> of the selection module are
  imported by the sources and not defined in them. The store of a selection is its name
  with a store suffix, the legend marks are named \<^verbatim>\<open>symbols_<field>_legend\<close>, the tuple
  fields \<^verbatim>\<open><name>_tuple_fields\<close>, and the store's upsert signal is \<^verbatim>\<open>modify\<close>-suffixed.
\<close>

definition STORE :: string where "STORE = ''_store''"
definition TUPLE :: string where "TUPLE = ''_tuple''"
definition MODIFY :: string where "MODIFY = ''_modify''"
definition LEGEND :: string where "LEGEND = ''_legend''"
definition VL_SELECTION_TEST :: string where "VL_SELECTION_TEST = ''vlSelectionTest''"

datatype selection_resolution = Global | Union | Intersect

fun resolution_name :: "selection_resolution \<Rightarrow> string" where
  "resolution_name Global = ''global''"
| "resolution_name Union = ''union''"
| "resolution_name Intersect = ''intersect''"

datatype empty_policy = EmptyAll | EmptyNone

datatype channel =
  COLOR | FILL | STROKE | STROKEWIDTH | SIZE | SHAPE | OPACITY | FILLOPACITY | STROKEOPACITY

text \<open>One entry of \<^verbatim>\<open>selCmpt.project\<close>.\<close>

record projection =
  p_field :: string
  p_channel :: "string option"

text \<open>
  A selection component. \<open>sel_fields\<close> is \<^verbatim>\<open>selCmpt['fields']\<close>, absent on a selection that
  projects no fields; \<open>sel_timeUnit\<close> is \<^verbatim>\<open>selCmpt.project.timeUnit\<close>, the time-unit node of
  the projection (a dataflow node, named by a number).
\<close>

record selection_component =
  sel_name :: string
  sel_fields :: "string list option"
  sel_project :: "projection list"
  sel_timeUnit :: "nat option"
  sel_resolve :: selection_resolution
  sel_empty :: empty_policy

text \<open>
  A field definition, as far as the legend code reads it: the field (absent on a field
  definition without one) and whether it owns a \<^verbatim>\<open>bin\<close>, \<^verbatim>\<open>aggregate\<close> or \<^verbatim>\<open>timeUnit\<close>
  property.
\<close>

record field_def =
  fd_field :: "string option"
  fd_bin :: bool
  fd_aggregate :: bool
  fd_timeUnit :: bool

text \<open>
  A model, as far as the selection and legend code reads it: \<^verbatim>\<open>model.parent\<close> (present or
  not), the dictionary \<^verbatim>\<open>model.component.selection\<close> in the order of its keys (it may be
  undefined), \<^verbatim>\<open>model.fieldDef(channel)\<close>, the string \<^verbatim>\<open>unitName(model)\<close>, and the method
  \<^verbatim>\<open>model.getSelectionComponent(variableName, origName)\<close>, which throws (\<open>None\<close>) when no
  component is found.
\<close>

record model =
  has_parent :: bool
  component_selection :: "(string \<times> selection_component) list option"
  fieldDef :: "channel \<Rightarrow> field_def option"
  unitName :: string
  getSelectionComponent :: "string \<Rightarrow> string \<Rightarrow> selection_component option"

text \<open>
  Modelled from the spec: \<^verbatim>\<open>forEachSelection\<close> of the selection module is not under the
  sources. It walks all declared selections of the view, in the order of the dictionary, and
  hands each component to the callback, which works on the state \<open>s\<close>.
\<close>

definition forEachSelection :: "model \<Rightarrow> (selection_component \<Rightarrow> 's \<Rightarrow> 's) \<Rightarrow> 's \<Rightarrow> 's" where
  "forEachSelection m cb s =
     (case component_selection m of None \<Rightarrow> s | Some sels \<Rightarrow> fold cb (map snd sels) s)"

text \<open>The components \<^verbatim>\<open>forEachSelection\<close> visits, in order.\<close>

definition selections_of :: "model \<Rightarrow> selection_component list" where
  "selections_of m = (case component_selection m of None \<Rightarrow> [] | Some sels \<Rightarrow> map snd sels)"

section \<open>Store datasets\<close>

text \<open>A dataset of the output: its name and whatever else it carries.\<close>

record vg_data =
  d_name :: string
  d_rest :: "(string \<times> json) list"

text \<open>\<^verbatim>\<open>assembleUnitSelectionData(model, data)\<close>; \<open>store_data\<close> is the callback.\<close>

definition store_data :: "selection_component \<Rightarrow> vg_data list \<Rightarrow> vg_data list" where
  "store_data selCmpt data =
     (let contains = filter (\<lambda>d. d_name d = sel_name selCmpt @ STORE) data
      in if contains = [] then data @ [\<lparr>d_name = sel_name selCmpt @ STORE, d_rest = []\<rparr>]
         else data)"

definition assembleUnitSelectionData :: "model \<Rightarrow> vg_data list \<Rightarrow> vg_data list" where
  "assembleUnitSelectionData m data = forEachSelection m store_data data"

text \<open>
  What a run may add to \<open>data\<close>: empty-initialized datasets with pairwise different names,
  each the store of a selection of \<open>cs\<close> and none of a name \<open>data\<close> already holds.
\<close>

definition fresh_stores :: "selection_component list \<Rightarrow> vg_data list \<Rightarrow> vg_data list \<Rightarrow> bool" where
  "fresh_stores cs data new \<longleftrightarrow>
     distinct (map d_name new) \<and>
     (\<forall>d \<in> set new. d_rest d = [] \<and> d_name d \<notin> d_name ` set data \<and>
        (\<exists>c \<in> set cs. d_name d = sel_name c @ STORE))"

section \<open>Selection predicates\<close>

text \<open>
  A logical operand over selection names: a name, or a \<^verbatim>\<open>not\<close>, \<^verbatim>\<open>and\<close>, \<^verbatim>\<open>or\<close> node.
\<close>

datatype 'a logical_operand =
    Leaf 'a
  | LogicalNot "'a logical_operand"
  | LogicalAnd "'a logical_operand list"
  | LogicalOr "'a logical_operand list"

text \<open>
  Modelled from the spec: \<^verbatim>\<open>logicalExpr\<close> of the utilities is not under the sources. It
  renders a tree by calling the callback on each leaf, left to right, and combining the
  rendered operands per the tree. How a \<^verbatim>\<open>not\<close>, \<^verbatim>\<open>and\<close> and \<^verbatim>\<open>or\<close> node is written is left
  to the three renderers \<open>fmt_not\<close>, \<open>fmt_and\<close> and \<open>fmt_or\<close>; a lone leaf is what the
  callback returns. The callback works on a state and may throw.
\<close>

record logical_fmt =
  fmt_not :: "string \<Rightarrow> string"
  fmt_and :: "string list \<Rightarrow> string"
  fmt_or :: "string list \<Rightarrow> string"

fun logicalExpr ::
  "logical_fmt \<Rightarrow> ('a \<Rightarrow> 's \<Rightarrow> error + string \<times> 's) \<Rightarrow> 'a logical_operand \<Rightarrow> 's \<Rightarrow> error + string \<times> 's"
and logicalExprs ::
  "logical_fmt \<Rightarrow> ('a \<Rightarrow> 's \<Rightarrow> error + string \<times> 's) \<Rightarrow> 'a logical_operand list \<Rightarrow> 's
     \<Rightarrow> error + string list \<times> 's"
where
  "logicalExpr fmt cb (Leaf op) s = cb op s"
| "logicalExpr fmt cb (LogicalNot op) s =
     (case logicalExpr fmt cb op s of
        Inl e \<Rightarrow> Inl e
      | Inr (str, s') \<Rightarrow> Inr (fmt_not fmt str, s'))"
| "logicalExpr fmt cb (LogicalAnd ops) s =
     (case logicalExprs fmt cb ops s of
        Inl e \<Rightarrow> Inl e
      | Inr (strs, s') \<Rightarrow> Inr (fmt_and fmt strs, s'))"
| "logicalExpr fmt cb (LogicalOr ops) s =
     (case logicalExprs fmt cb ops s of
        Inl e \<Rightarrow> Inl e
      | Inr (strs, s') \<Rightarrow> Inr (fmt_or fmt strs, s'))"
| "logicalExprs fmt cb [] s = Inr ([], s)"
| "logicalExprs fmt cb (op # ops) s =
     (case logicalExpr fmt cb op s of
        Inl e \<Rightarrow> Inl e
      | Inr (str, s') \<Rightarrow>
          (case logicalExprs fmt cb ops s' of
             Inl e \<Rightarrow> Inl e
           | Inr (strs, s'') \<Rightarrow> Inr (str # strs, s'')))"

text \<open>
  The state of \<^verbatim>\<open>assembleSelectionPredicate\<close>: the list \<^verbatim>\<open>stores\<close> and, of the dataflow,
  the chain of ancestors of the insertion point \<^verbatim>\<open>dfnode || model.component.data.raw\<close>
  (nearest first; empty when the node has no parent).
\<close>

record predicate_state =
  stores :: "string list"
  ancestors :: "nat list"

text \<open>
  Modelled from the spec: \<^verbatim>\<open>insertAsParentOf\<close> of the dataflow nodes is not under the
  sources. The node becomes the new parent of the insertion point, between it and its
  former parent.
\<close>

definition insertAsParentOf :: "nat \<Rightarrow> nat list \<Rightarrow> nat list" where
  "insertAsParentOf tunode chain = tunode # chain"

text \<open>
  The inner function \<^verbatim>\<open>expr(name)\<close>. \<^verbatim>\<open>stringValue\<close> (of the utility library) and \<^verbatim>\<open>varName\<close>
  are parameters.
\<close>

definition expr ::
  "(string \<Rightarrow> string) \<Rightarrow> (string \<Rightarrow> string) \<Rightarrow> model \<Rightarrow> string \<Rightarrow> predicate_state
     \<Rightarrow> error + string \<times> predicate_state"
where
  "expr stringValue varName m name st =
     (let vname = varName name in
      case getSelectionComponent m vname name of
        None \<Rightarrow> Inl (SelectionNotFound name)
      | Some selCmpt \<Rightarrow>
          (let store = stringValue (vname @ STORE);
               st1 = (case sel_timeUnit selCmpt of
                        None \<Rightarrow> st
                      | Some tunode \<Rightarrow>
                          (if ancestors st \<noteq> []
                           then st\<lparr>ancestors := insertAsParentOf tunode (ancestors st)\<rparr>
                           else st\<lparr>ancestors := [tunode]\<rparr>));
               st2 = (if sel_empty selCmpt \<noteq> EmptyNone
                      then st1\<lparr>stores := stores st1 @ [store]\<rparr> else st1)
           in Inr (''vlSelectionTest('' @ store @ '', datum'' @
                     (if sel_resolve selCmpt = Global then '')''
                      else '', '' @ stringValue (resolution_name (sel_resolve selCmpt)) @ '')''),
                   st2)))"

text \<open>
  \<^verbatim>\<open>assembleSelectionPredicate(model, selections, dfnode)\<close>: the predicate string and the
  ancestors of the insertion point afterwards.
\<close>

definition assembleSelectionPredicate ::
  "logical_fmt \<Rightarrow> (string \<Rightarrow> string) \<Rightarrow> (string \<Rightarrow> string) \<Rightarrow> model \<Rightarrow> string logical_operand
     \<Rightarrow> nat list \<Rightarrow> error + string \<times> nat list"
where
  "assembleSelectionPredicate fmt stringValue varName m selections chain =
     (case logicalExpr fmt (expr stringValue varName m) selections
             \<lparr>stores = [], ancestors = chain\<rparr> of
        Inl e \<Rightarrow> Inl e
      | Inr (predicateStr, st) \<Rightarrow>
          Inr ((if stores st \<noteq> []
                then ''!('' @ join '' || '' (map (\<lambda>s. ''length(data('' @ s @ ''))'') (stores st))
                       @ '') || ''
                else []) @ ''('' @ predicateStr @ '')'',
               ancestors st))"

section \<open>Scale domains driven by a selection\<close>

text \<open>
  The parsed payload of the provisional domain signal: the selection name, and the optional
  encoding channel and field.
\<close>

record selection_domain =
  sd_selection :: string
  sd_encoding :: "string option"
  sd_field :: "string option"

text \<open>\<^verbatim>\<open>!!s\<close> for an optional string: given and not empty.\<close>

fun given :: "string option \<Rightarrow> bool" where
  "given None = False"
| "given (Some s) = (s \<noteq> [])"

text \<open>An optional string where a string is expected (\<^verbatim>\<open>undefined\<close> as a template prints it).\<close>

fun js_string :: "string option \<Rightarrow> string" where
  "js_string (Some s) = s"
| "js_string None = ''undefined''"

text \<open>\<^verbatim>\<open>model.component.selection && model.component.selection[name]\<close>.\<close>

definition own_selection :: "model \<Rightarrow> string \<Rightarrow> selection_component option" where
  "own_selection m name =
     (case component_selection m of None \<Rightarrow> None | Some sels \<Rightarrow> map_of sels name)"

definition warn_bind_scales :: string where
  "warn_bind_scales =
     ''Use \"bind\": \"scales\" to setup a binding for scales and selections within the same view.''"

definition warn_no_field :: "string \<Rightarrow> string" where
  "warn_no_field quoted_field =
     ''A \"field\" or \"encoding\" must be specified when using a selection as a scale domain. ''
     @ ''Using \"field\": '' @ quoted_field @ ''.''"

definition warn_encoding :: "bool \<Rightarrow> string \<Rightarrow> string \<Rightarrow> string \<Rightarrow> string" where
  "warn_encoding none quoted_encoding quoted_selection quoted_field =
     (if none then ''No '' else ''Multiple '')
     @ ''matching '' @ quoted_encoding @ '' encoding found for selection '' @ quoted_selection @ ''. ''
     @ ''Using \"field\": '' @ quoted_field @ ''.''"

text \<open>
  \<^verbatim>\<open>assembleSelectionScaleDomain(model, domainRaw)\<close>: the signal of the result and the
  warnings logged, in order. \<open>parse\<close> stands for stripping the marker \<^verbatim>\<open>SELECTION_DOMAIN\<close>
  and \<^verbatim>\<open>JSON.parse\<close> (\<open>None\<close> when it throws); \<^verbatim>\<open>accessPathWithDatum\<close> is a parameter, too.
  \<^verbatim>\<open>project[0]\<close> of an empty projection is undefined, and reading its field throws.
\<close>

definition assembleSelectionScaleDomain ::
  "(string \<Rightarrow> selection_domain option) \<Rightarrow> (string \<Rightarrow> string) \<Rightarrow> (string \<Rightarrow> string)
     \<Rightarrow> (string \<Rightarrow> string \<Rightarrow> string) \<Rightarrow> model \<Rightarrow> string \<Rightarrow> error + string \<times> string list"
where
  "assembleSelectionScaleDomain parse stringValue varName accessPathWithDatum m domainRaw =
     (case parse domainRaw of
        None \<Rightarrow> Inl SyntaxError
      | Some selDomain \<Rightarrow>
          (let name = varName (sd_selection selDomain);
               encoding = sd_encoding selDomain;
               field = sd_field selDomain
           in case own_selection m name of
                Some selCmpt \<Rightarrow> Inr (''null'', [warn_bind_scales])
              | None \<Rightarrow>
                  (case getSelectionComponent m name (sd_selection selDomain) of
                     None \<Rightarrow> Inl (SelectionNotFound (sd_selection selDomain))
                   | Some selCmpt \<Rightarrow>
                       (if \<not> given encoding \<and> \<not> given field then
                          (case sel_project selCmpt of
                             [] \<Rightarrow> Inl TypeError
                           | p # ps \<Rightarrow>
                               Inr (accessPathWithDatum (p_field p) name,
                                    (if length (sel_project selCmpt) > 1
                                     then [warn_no_field (stringValue (p_field p))]
                                     else [])))
                        else if given encoding \<and> \<not> given field then
                          (let encodings = filter (\<lambda>p. p_channel p = encoding) (sel_project selCmpt)
                           in if encodings = [] \<or> length encodings > 1 then
                                (case sel_project selCmpt of
                                   [] \<Rightarrow> Inl TypeError
                                 | p # ps \<Rightarrow>
                                     Inr (accessPathWithDatum (p_field p) name,
                                          [warn_encoding (encodings = [])
                                             (stringValue (js_string encoding))
                                             (stringValue (sd_selection selDomain))
                                             (stringValue (p_field p))]))
                              else
                                (case encodings of
                                   [] \<Rightarrow> Inl TypeError
                                 | e # es \<Rightarrow> Inr (accessPathWithDatum (p_field e) name, [])))
                        else Inr (accessPathWithDatum (js_string field) name, [])))))"

section \<open>Interactive legends: which selections bind\<close>

text \<open>An entry of \<^verbatim>\<open>InteractiveSelections[]\<close>: name, store reference and projected fields.\<close>

record interactive_selection =
  is_name :: string
  is_store :: string
  is_fields :: "string list"

text \<open>
  The callbacks of \<^verbatim>\<open>interactiveLegendExists\<close>: collecting the selections that carry
  \<^verbatim>\<open>fields\<close> (an array, also an empty one, is truthy), and collecting the fields of the
  channels; \<^verbatim>\<open>fieldDef.field\<close> is pushed as it is, defined or not.
\<close>

definition push_selection ::
  "(string \<Rightarrow> string) \<Rightarrow> selection_component \<Rightarrow> interactive_selection list \<Rightarrow> interactive_selection list"
where
  "push_selection stringValue selCmpt selections =
     (case sel_fields selCmpt of
        None \<Rightarrow> selections
      | Some fs \<Rightarrow>
          selections @ [\<lparr>is_name = sel_name selCmpt,
                          is_store = stringValue (sel_name selCmpt @ STORE),
                          is_fields = fs\<rparr>])"

definition push_encoding_field :: "model \<Rightarrow> channel \<Rightarrow> string option list \<Rightarrow> string option list" where
  "push_encoding_field m channel encodingFields =
     (case fieldDef m channel of
        None \<Rightarrow> encodingFields
      | Some fd \<Rightarrow>
          (if \<not> (fd_bin fd \<or> fd_aggregate fd \<or> fd_timeUnit fd)
           then encodingFields @ [fd_field fd] else encodingFields))"

definition interactiveLegendExists :: "(string \<Rightarrow> string) \<Rightarrow> model \<Rightarrow> interactive_selection list" where
  "interactiveLegendExists stringValue m =
     (if has_parent m then []
      else
        (let selections = forEachSelection m (push_selection stringValue) []
         in if selections = [] then []
            else
              (let selectionFields = unique (flatten (map is_fields selections));
                   encodingFields =
                     unique (fold (push_encoding_field m) [COLOR, OPACITY, SIZE, SHAPE] []);
                   differenceFields =
                     filter (\<lambda>x. indexOf encodingFields (Some x) = -1) selectionFields
               in if differenceFields \<noteq> [] then [] else selections)))"

text \<open>
  The reading of the invariant of the binder as the specification words it: the
  deduplicated union of the fields projected by the field-projecting selections is the same
  set as the deduplicated fields of the color, opacity, size and shape encodings, an
  encoding with bin, aggregate or time unit not counting.
\<close>

definition projected_fields :: "model \<Rightarrow> string set" where
  "projected_fields m =
     (\<Union>c \<in> set (selections_of m). case sel_fields c of None \<Rightarrow> {} | Some fs \<Rightarrow> set fs)"

definition encoded_fields :: "model \<Rightarrow> string option set" where
  "encoded_fields m =
     {fd_field fd | fd channel. channel \<in> {COLOR, OPACITY, SIZE, SHAPE} \<and> fieldDef m channel = Some fd
        \<and> \<not> (fd_bin fd \<or> fd_aggregate fd \<or> fd_timeUnit fd)}"

definition spec_fields_exactly_covered :: "model \<Rightarrow> bool" where
  "spec_fields_exactly_covered m \<longleftrightarrow> Some ` projected_fields m = encoded_fields m"

definition some_selection_projects :: "model \<Rightarrow> bool" where
  "some_selection_projects m \<longleftrightarrow> (\<exists>c \<in> set (selections_of m). sel_fields c \<noteq> None)"

section \<open>Signals\<close>

text \<open>An event handler of a signal: its \<^verbatim>\<open>events\<close> (a selector string or a list of event
  objects) and its \<^verbatim>\<open>update\<close> expression.\<close>

record handler =
  h_events :: json
  h_update :: string

record signal =
  sg_name :: string
  sg_value :: "json option"
  sg_update :: "string option"
  sg_on :: "handler list option"

text \<open>
  The compiler of a selection type (\<^verbatim>\<open>selCompiler\<close>) and of a transform
  (\<^verbatim>\<open>txCompiler\<close>, each capability optional), as far as signal assembly calls them.
\<close>

record selection_compiler =
  c_signals :: "model \<Rightarrow> selection_component \<Rightarrow> signal list"
  c_modifyExpr :: "model \<Rightarrow> selection_component \<Rightarrow> string"

record transform_compiler =
  t_signals :: "(model \<Rightarrow> selection_component \<Rightarrow> signal list \<Rightarrow> signal list) option"
  t_modifyExpr :: "(model \<Rightarrow> selection_component \<Rightarrow> string \<Rightarrow> string) option"

text \<open>
  The callback of \<^verbatim>\<open>assembleUnitSelectionSignals\<close>. \<open>compilerOf\<close> is the compiler that
  \<^verbatim>\<open>forEachSelection\<close> hands over with the component, \<open>transformsOf\<close> the compilers that
  \<^verbatim>\<open>forEachTransform\<close> visits, in order.
\<close>

definition apply_transform ::
  "model \<Rightarrow> selection_component \<Rightarrow> transform_compiler \<Rightarrow> signal list \<times> string \<Rightarrow> signal list \<times> string"
where
  "apply_transform m selCmpt txCompiler st =
     (let signals = (case t_signals txCompiler of
                       None \<Rightarrow> fst st
                     | Some f \<Rightarrow> f m selCmpt (fst st));
          modifyExpr = (case t_modifyExpr txCompiler of
                          None \<Rightarrow> snd st
                        | Some g \<Rightarrow> g m selCmpt (snd st))
      in (signals, modifyExpr))"

definition selection_signals ::
  "(selection_component \<Rightarrow> selection_compiler) \<Rightarrow> (selection_component \<Rightarrow> transform_compiler list)
     \<Rightarrow> (string \<Rightarrow> string) \<Rightarrow> model \<Rightarrow> selection_component \<Rightarrow> signal list \<Rightarrow> signal list"
where
  "selection_signals compilerOf transformsOf stringValue m selCmpt signals =
     (let name = sel_name selCmpt;
          selCompiler = compilerOf selCmpt;
          modifyExpr = c_modifyExpr selCompiler m selCmpt;
          signals1 = signals @ c_signals selCompiler m selCmpt;
          st = fold (apply_transform m selCmpt) (transformsOf selCmpt) (signals1, modifyExpr)
      in fst st @
         [\<lparr>sg_name = name @ MODIFY, sg_value = None,
           sg_update = Some (''modify('' @ stringValue (sel_name selCmpt @ STORE) @ '', '' @ snd st @ '')''),
           sg_on = None\<rparr>])"

text \<open>\<^verbatim>\<open>signals.filter(s => s.name === n)[0]\<close>, as the position of that signal.\<close>

fun find_signal :: "string \<Rightarrow> signal list \<Rightarrow> nat option" where
  "find_signal n [] = None"
| "find_signal n (s # ss) =
     (if sg_name s = n then Some 0 else map_option Suc (find_signal n ss))"

text \<open>The signal itself, when there is one.\<close>

definition signal_named :: "string \<Rightarrow> signal list \<Rightarrow> signal option" where
  "signal_named n signals =
     (case find_signal n signals of None \<Rightarrow> None | Some i \<Rightarrow> Some (signals ! i))"

text \<open>
  \<^verbatim>\<open>s.on[0].update = f(s.on[0].update)\<close>: it throws on a signal without \<^verbatim>\<open>on\<close> and on one
  whose \<^verbatim>\<open>on\<close> is empty.
\<close>

definition set_first_update :: "(string \<Rightarrow> string) \<Rightarrow> signal \<Rightarrow> error + signal" where
  "set_first_update f s =
     (case sg_on s of
        None \<Rightarrow> Inl TypeError
      | Some [] \<Rightarrow> Inl TypeError
      | Some (h # hs) \<Rightarrow> Inr (s\<lparr>sg_on := Some (h\<lparr>h_update := f (h_update h)\<rparr> # hs)\<rparr>))"

text \<open>\<^verbatim>\<open>s.on.push(h)\<close>, on a signal that has \<^verbatim>\<open>on\<close>.\<close>

definition push_handler :: "handler \<Rightarrow> signal \<Rightarrow> signal" where
  "push_handler h s = s\<lparr>sg_on := map_option (\<lambda>hs. hs @ [h]) (sg_on s)\<rparr>"

text \<open>\<^verbatim>\<open>str.slice(0, -4)\<close>.\<close>

definition slice_0_minus4 :: "string \<Rightarrow> string" where
  "slice_0_minus4 str = take (length str - 4) str"

definition datum :: string where
  "datum = ''(item().isVoronoi ? datum.datum : datum)''"

text \<open>The two \<^verbatim>\<open>reduce\<close> calls: each step puts its piece in front of the accumulated string.\<close>

definition ignore_step :: "string \<Rightarrow> string \<Rightarrow> string" where
  "ignore_step expr0 field =
     ''item().mark.name !== 'symbols_'' @ field @ LEGEND @
     ''' && item().mark.name !== 'labels_'' @ field @ LEGEND @ ''' && '' @ expr0"

definition ignoreLegendExpression :: "string list \<Rightarrow> string" where
  "ignoreLegendExpression selectionFields = foldl ignore_step [] selectionFields"

definition event_step :: "string \<Rightarrow> string \<Rightarrow> string" where
  "event_step expression field =
     ''@symbols_'' @ field @ LEGEND @ '':click, @labels_'' @ field @ LEGEND @ '':click, '' @ expression"

definition eventExpression :: "string list \<Rightarrow> string" where
  "eventExpression fs = foldl event_step [] fs"

text \<open>The signal that the multi-field branch puts in front of the list for one field.\<close>

definition field_legend_signal :: "string \<Rightarrow> string \<Rightarrow> string \<Rightarrow> signal" where
  "field_legend_signal ignore name field =
     \<lparr>sg_name = name @ ''_'' @ field @ ''_legend'',
      sg_value = None,
      sg_update = None,
      sg_on = Some
        [\<lparr>h_events = JArr [JObj [(''source'', JStr ''scope''), (''type'', JStr ''click'')]],
          h_update = ignore @ '' item().mark.marktype !== 'group' ? '' @ datum @ ''['' @ [CHR 0x27]
             @ field @ [CHR 0x27] @ ''] : (!('' @ slice_0_minus4 ignore @ '') ? ''
             @ name @ ''_'' @ field @ ''_legend : null)''\<rparr>,
         \<lparr>h_events = JStr (''@symbols_'' @ field @ LEGEND @ '':click, @labels_'' @ field @ LEGEND
             @ '':click''),
          h_update = ''datum.value''\<rparr>]\<rparr>"

text \<open>
  The body of \<^verbatim>\<open>selections.forEach\<close> in \<^verbatim>\<open>assembleInteractiveLegendSignals\<close>. The variable
  \<^verbatim>\<open>signal\<close> is an alias of an element of the list: the model keeps its position, which
  moves by one with every signal put in front.
\<close>

definition legend_signals_step ::
  "string \<Rightarrow> string list \<Rightarrow> interactive_selection \<Rightarrow> signal list \<Rightarrow> error + signal list"
where
  "legend_signals_step unit selectionFields selection signals =
     (let name = is_name selection;
          ignore = ignoreLegendExpression selectionFields
      in case find_signal (name @ TUPLE) signals of
           None \<Rightarrow> Inl TypeError
         | Some i \<Rightarrow>
             (case set_first_update (\<lambda>u. ignore @ u) (signals ! i) of
                Inl e \<Rightarrow> Inl e
              | Inr signal1 \<Rightarrow>
                  (let events = eventExpression (is_fields selection)
                   in if length (is_fields selection) \<noteq> 1 then
                        (let fieldSignals =
                               map (\<lambda>field. name @ ''_'' @ field @ ''_legend'') (is_fields selection);
                             signals1 =
                               fold (\<lambda>field sigs. field_legend_signal ignore name field # sigs)
                                 (is_fields selection) (signals[i := signal1]);
                             i1 = i + length (is_fields selection);
                             signal2 = push_handler
                               \<lparr>h_events = JStr events,
                                h_update = join '' && '' fieldSignals @ '' ? {unit: '' @ unit
                                  @ '', fields: '' @ name @ ''_tuple_fields, values: [ ''
                                  @ join '','' fieldSignals @ '' ]} : '' @ sg_name signal1\<rparr> signal1;
                             signals2 = signals1[i1 := signal2]
                         in case find_signal (name @ ''_toggle'') signals2 of
                              None \<Rightarrow> Inl TypeError
                            | Some j \<Rightarrow>
                                (case set_first_update
                                        (\<lambda>u. slice_0_minus4 ignore @ '' ? event.shiftKey : false'')
                                        (signals2 ! j) of
                                   Inl e \<Rightarrow> Inl e
                                 | Inr toggleSignal \<Rightarrow> Inr (signals2[j := toggleSignal])))
                      else
                        Inr (signals[i := push_handler
                               \<lparr>h_events = JStr events,
                                h_update = ''{unit: '' @ unit @ '', fields: '' @ name
                                  @ ''_tuple_fields, values: [datum.value]}''\<rparr> signal1]))))"

definition assembleInteractiveLegendSignals ::
  "model \<Rightarrow> signal list \<Rightarrow> interactive_selection list \<Rightarrow> error + signal list"
where
  "assembleInteractiveLegendSignals m signals selections =
     (let selectionFields = unique (flatten (map is_fields selections))
      in fold (\<lambda>selection r.
                 case r of
                   Inl e \<Rightarrow> Inl e
                 | Inr sigs \<Rightarrow> legend_signals_step (unitName m) selectionFields selection sigs)
           selections (Inr signals))"

definition assembleUnitSelectionSignals ::
  "(selection_component \<Rightarrow> selection_compiler) \<Rightarrow> (selection_component \<Rightarrow> transform_compiler list)
     \<Rightarrow> (string \<Rightarrow> string) \<Rightarrow> model \<Rightarrow> signal list \<Rightarrow> error + signal list"
where
  "assembleUnitSelectionSignals compilerOf transformsOf stringValue m signals =
     (let signals1 =
            forEachSelection m (selection_signals compilerOf transformsOf stringValue m) signals;
          selections = interactiveLegendExists stringValue m
      in if selections \<noteq> [] then assembleInteractiveLegendSignals m signals1 selections
         else Inr signals1)"

section \<open>Interactive legends: the encode block\<close>

text \<open>The \<^verbatim>\<open>switch\<close> on the channel: the four channels whose legend is rewritten.\<close>

fun is_legend_channel :: "channel \<Rightarrow> bool" where
  "is_legend_channel COLOR = True"
| "is_legend_channel OPACITY = True"
| "is_legend_channel SIZE = True"
| "is_legend_channel SHAPE = True"
| "is_legend_channel channel = False"

text \<open>
  The callback choosing the selection of highest specificity; \<open>field\<close> may be undefined, and
  then is the element of no projection.
\<close>

definition pick_selection ::
  "string option \<Rightarrow> interactive_selection \<times> nat \<Rightarrow> nat \<times> nat option \<Rightarrow> nat \<times> nat option"
where
  "pick_selection field si acc =
     (if length (is_fields (fst si)) > fst acc \<and> indexOf (map Some (is_fields (fst si))) field > -1
      then (length (is_fields (fst si)), Some (snd si)) else acc)"

definition legend_test :: "interactive_selection \<Rightarrow> string \<Rightarrow> string" where
  "legend_test maxProjSelection field =
     (if length (is_fields maxProjSelection) > 1
      then ''!'' @ is_name maxProjSelection @ ''_'' @ field @ ''_legend || datum.value === ''
           @ is_name maxProjSelection @ ''_'' @ field @ ''_legend''
      else ''!(length(data('' @ is_store maxProjSelection @ ''))) || '' @ VL_SELECTION_TEST @ ''(''
           @ is_store maxProjSelection @ '', {'' @ field @ '': datum.value})'')"

text \<open>The entry \<^verbatim>\<open>value: v\<close> of an object literal; an undefined value leaves no entry.\<close>

fun value_entry :: "json option \<Rightarrow> (string \<times> json) list" where
  "value_entry None = []"
| "value_entry (Some v) = [(''value'', v)]"

text \<open>
  \<^verbatim>\<open>base = dflt; if (updateValue[key]) { base = updateValue[key].value }\<close>: the value of the
  highlighted branch.
\<close>

definition base_value :: "(string \<times> json) list \<Rightarrow> string \<Rightarrow> json \<Rightarrow> json option" where
  "base_value updateValue key dflt =
     (case map_of updateValue key of
        None \<Rightarrow> Some dflt
      | Some v \<Rightarrow> (if truthy v then js_get v ''value'' else Some dflt))"

text \<open>
  The literal \<^verbatim>\<open>{opacity: {value: 0.7}}\<close> that stands in for a missing part, and the pair
  \<^verbatim>\<open>[{test, value: v}, {value: d}]\<close> of the highlighted and the dimmed branch.
\<close>

definition fabricated_update :: json where
  "fabricated_update = JObj [(''opacity'', JObj [(''value'', JNum 0.7)])]"

definition conditional :: "string \<Rightarrow> json option \<Rightarrow> json \<Rightarrow> json" where
  "conditional test v d =
     JArr [JObj ((''test'', JStr test) # value_entry v), JObj [(''value'', d)]]"

text \<open>
  The body of the loop over the parts \<^verbatim>\<open>labels\<close> and \<^verbatim>\<open>symbols\<close>. Reading a property of
  an undefined or null \<^verbatim>\<open>updateValue\<close> throws; by its type it is an object.
\<close>

definition update_part ::
  "channel \<Rightarrow> interactive_selection \<Rightarrow> string \<Rightarrow> string \<Rightarrow> (string \<times> json) list
     \<Rightarrow> error + (string \<times> json) list"
where
  "update_part channel maxProjSelection field part updatedLegendEncode =
     (case (case map_of updatedLegendEncode part of
              Some p \<Rightarrow> js_get p ''update''
            | None \<Rightarrow> Some fabricated_update) of
        Some (JObj updateValue) \<Rightarrow>
          (let test = legend_test maxProjSelection field;
               updateValue1 =
                 (if part = ''symbols'' \<and> channel = OPACITY then
                    (let strokeValue = base_value updateValue ''stroke'' (JStr ''#000000'')
                     in obj_set updateValue ''stroke''
                          (conditional test strokeValue (JStr ''#aaaaaa'')))
                  else
                    (let opacityValue = base_value updateValue ''opacity'' (JNum 0.7)
                     in obj_set updateValue ''opacity''
                          (conditional test opacityValue (JNum 0.2))))
           in Inr (obj_set updatedLegendEncode part
                     (JObj [(''name'', JStr (part @ ''_'' @ field @ LEGEND)),
                            (''interactive'', JBool True),
                            (''update'', JObj updateValue1)])))
      | _ \<Rightarrow> Inl TypeError)"

definition update_parts ::
  "channel \<Rightarrow> interactive_selection \<Rightarrow> string \<Rightarrow> (string \<times> json) list
     \<Rightarrow> error + (string \<times> json) list"
where
  "update_parts channel maxProjSelection field legendEncode =
     fold (\<lambda>part r.
             case r of
               Inl e \<Rightarrow> Inl e
             | Inr enc \<Rightarrow> update_part channel maxProjSelection field part enc)
       [''labels'', ''symbols''] (Inr legendEncode)"

text \<open>
  \<^verbatim>\<open>updateInteractiveLegendComponent(model, legendEncode, channel, interactiveSelections)\<close>.
  \<^verbatim>\<open>model.fieldDef(channel).field\<close> throws without a field definition.
\<close>

definition updateInteractiveLegendComponent ::
  "model \<Rightarrow> (string \<times> json) list \<Rightarrow> channel \<Rightarrow> interactive_selection list
     \<Rightarrow> error + (string \<times> json) list"
where
  "updateInteractiveLegendComponent m legendEncode channel interactiveSelections =
     (if \<not> is_legend_channel channel then Inr legendEncode
      else
        (case fieldDef m channel of
           None \<Rightarrow> Inl TypeError
         | Some fd \<Rightarrow>
             (let field = fd_field fd;
                  chosen = fold (pick_selection field)
                             (zip interactiveSelections [0..<length interactiveSelections]) (0, None);
                  maxFields = fst chosen;
                  selectionIndex = snd chosen
              in if maxFields = 0 then Inr legendEncode
                 else
                   (case selectionIndex of
                      None \<Rightarrow> Inl TypeError
                    | Some i \<Rightarrow>
                        update_parts channel (interactiveSelections ! i) (js_string field)
                          legendEncode))))"

text \<open>
  The step of \<^verbatim>\<open>parseLegendForChannel\<close> that calls the binder: only when
  \<^verbatim>\<open>interactiveLegendExists\<close> returns selections.
\<close>

definition interactive_legend_encode ::
  "(string \<Rightarrow> string) \<Rightarrow> model \<Rightarrow> (string \<times> json) list \<Rightarrow> channel \<Rightarrow> error + (string \<times> json) list"
where
  "interactive_legend_encode stringValue m legendEncode channel =
     (let interactiveSelections = interactiveLegendExists stringValue m
      in if interactiveSelections \<noteq> []
         then updateInteractiveLegendComponent m legendEncode channel interactiveSelections
         else Inr legendEncode)"

text \<open>The name and the flag of a part of an encode block, and its \<^verbatim>\<open>update\<close> entry for a key.\<close>

definition part_name :: "(string \<times> json) list \<Rightarrow> string \<Rightarrow> json option" where
  "part_name legendEncode part =
     (case map_of legendEncode part of None \<Rightarrow> None | Some p \<Rightarrow> js_get p ''name'')"

definition part_interactive :: "(string \<times> json) list \<Rightarrow> string \<Rightarrow> json option" where
  "part_interactive legendEncode part =
     (case map_of legendEncode part of None \<Rightarrow> None | Some p \<Rightarrow> js_get p ''interactive'')"


text \<open>A part of an incoming encode block is as its type says: absent, or with an object as
  its \<^verbatim>\<open>update\<close>.\<close>

definition part_typed :: "(string \<times> json) list \<Rightarrow> string \<Rightarrow> bool" where
  "part_typed legendEncode part =
     (case map_of legendEncode part of
        None \<Rightarrow> True
      | Some p \<Rightarrow> (case js_get p ''update'' of Some (JObj u) \<Rightarrow> True | _ \<Rightarrow> False))"

text \<open>
  For stating what the binder does to a typed part: the object \<^verbatim>\<open>updateValue\<close> that the loop
  starts from, and the part that it writes back.
\<close>

definition start_update :: "(string \<times> json) list \<Rightarrow> string \<Rightarrow> (string \<times> json) list" where
  "start_update legendEncode part =
     (case map_of legendEncode part of
        None \<Rightarrow> [(''opacity'', JObj [(''value'', JNum 0.7)])]
      | Some p \<Rightarrow> (case js_get p ''update'' of Some (JObj u) \<Rightarrow> u | _ \<Rightarrow> []))"

definition rewritten_part ::
  "channel \<Rightarrow> interactive_selection \<Rightarrow> string \<Rightarrow> string \<Rightarrow> (string \<times> json) list \<Rightarrow> json"
where
  "rewritten_part channel sel f part u =
     JObj [(''name'', JStr (part @ ''_'' @ f @ LEGEND)),
           (''interactive'', JBool True),
           (''update'', JObj
              (if part = ''symbols'' \<and> channel = OPACITY
               then obj_set u ''stroke''
                      (conditional (legend_test sel f) (base_value u ''stroke'' (JStr ''#000000''))
                         (JStr ''#aaaaaa''))
               else obj_set u ''opacity''
                      (conditional (legend_test sel f) (base_value u ''opacity'' (JNum 0.7))
                         (JNum 0.2))))]"

section \<open>Legend components and their merge\<close>

text \<open>A value with its provenance, \<^verbatim>\<open>Explicit<T>\<close>.\<close>

record explicit_value =
  ex_explicit :: bool
  ex_value :: "json option"

text \<open>
  A legend component: the two halves \<^verbatim>\<open>explicit\<close> and \<^verbatim>\<open>implicit\<close>, each a property map.
\<close>

record legend_component =
  lc_explicit :: "(string \<times> json) list"
  lc_implicit :: "(string \<times> json) list"

text \<open>
  Modelled from the spec: the class of the legend component (\<^verbatim>\<open>getWithExplicit\<close>,
  \<^verbatim>\<open>setWithExplicit\<close>, \<^verbatim>\<open>clone\<close>) and \<^verbatim>\<open>makeImplicit\<close> and \<^verbatim>\<open>mergeValuesWithExplicit\<close> of
  the split module are not under the sources. A component maps a property name to a value
  and an explicit flag; a property is set only when its value is defined, and lives in one
  half only. In a merge an explicit value wins over an implicit one (a default never
  overwrites an explicit value), equal values of the same provenance are kept, and only values
  of the same provenance that disagree go to the tie-breaker, which works on a state.
\<close>

definition getWithExplicit :: "legend_component \<Rightarrow> string \<Rightarrow> explicit_value" where
  "getWithExplicit c key =
     (case map_of (lc_explicit c) key of
        Some v \<Rightarrow> \<lparr>ex_explicit = True, ex_value = Some v\<rparr>
      | None \<Rightarrow>
          (case map_of (lc_implicit c) key of
             Some v \<Rightarrow> \<lparr>ex_explicit = False, ex_value = Some v\<rparr>
           | None \<Rightarrow> \<lparr>ex_explicit = False, ex_value = None\<rparr>))"

definition setWithExplicit :: "legend_component \<Rightarrow> string \<Rightarrow> explicit_value \<Rightarrow> legend_component" where
  "setWithExplicit c key v =
     (case ex_value v of
        None \<Rightarrow> c
      | Some x \<Rightarrow>
          (if ex_explicit v
           then c\<lparr>lc_implicit := obj_delete (lc_implicit c) key,
                  lc_explicit := obj_set (lc_explicit c) key x\<rparr>
           else c\<lparr>lc_explicit := obj_delete (lc_explicit c) key,
                  lc_implicit := obj_set (lc_implicit c) key x\<rparr>))"

definition clone :: "legend_component \<Rightarrow> legend_component" where
  "clone c = c"

definition makeImplicit :: "json \<Rightarrow> explicit_value" where
  "makeImplicit v = \<lparr>ex_explicit = False, ex_value = Some v\<rparr>"

definition mergeValuesWithExplicit ::
  "explicit_value \<Rightarrow> explicit_value \<Rightarrow> (explicit_value \<Rightarrow> explicit_value \<Rightarrow> 's \<Rightarrow> explicit_value \<times> 's)
     \<Rightarrow> 's \<Rightarrow> explicit_value \<times> 's"
where
  "mergeValuesWithExplicit v1 v2 tieBreaker s =
     (if ex_value v1 = None then (v2, s)
      else if ex_explicit v1 \<and> \<not> ex_explicit v2 then (v1, s)
      else if ex_explicit v2 \<and> \<not> ex_explicit v1 then (v2, s)
      else if ex_value v1 = ex_value v2 then (v1, s)
      else tieBreaker v1 v2 s)"

text \<open>
  Modelled from the spec: \<^verbatim>\<open>deleteNestedProperty\<close> of the utilities is not under the
  sources. It strips the property at the end of the path; a parent left without keys is
  deleted in turn. Where the path does not lead through objects nothing is stripped.
\<close>

fun deleteNestedProperty :: "(string \<times> json) list \<Rightarrow> string list \<Rightarrow> (string \<times> json) list" where
  "deleteNestedProperty obj [] = obj"
| "deleteNestedProperty obj [prop] = obj_delete obj prop"
| "deleteNestedProperty obj (prop # next # rest) =
     (case map_of obj prop of
        Some (JObj sub) \<Rightarrow>
          (let sub1 = deleteNestedProperty sub (next # rest)
           in if sub1 = [] then obj_delete obj prop else obj_set obj prop (JObj sub1))
      | _ \<Rightarrow> obj)"

text \<open>\<^verbatim>\<open>mergeSymbolType(st1, st2)\<close>.\<close>

definition mergeSymbolType :: "explicit_value \<Rightarrow> explicit_value \<Rightarrow> explicit_value" where
  "mergeSymbolType st1 st2 = (if ex_value st2 = Some (JStr ''circle'') then st2 else st1)"

text \<open>
  The tie-breaker that \<^verbatim>\<open>mergeLegendComponent\<close> passes for the property \<open>prop\<close>; its state
  is the flag \<^verbatim>\<open>typeMerged\<close>. \<^verbatim>\<open>mergeTitleComponent\<close> and \<^verbatim>\<open>defaultTieBreaker\<close> are
  parameters.
\<close>

definition tieBreaker ::
  "(explicit_value \<Rightarrow> explicit_value \<Rightarrow> explicit_value)
     \<Rightarrow> (explicit_value \<Rightarrow> explicit_value \<Rightarrow> string \<Rightarrow> explicit_value)
     \<Rightarrow> string \<Rightarrow> explicit_value \<Rightarrow> explicit_value \<Rightarrow> bool \<Rightarrow> explicit_value \<times> bool"
where
  "tieBreaker mergeTitleComponent defaultTieBreaker prop v1 v2 typeMerged =
     (if prop = ''symbolType'' then (mergeSymbolType v1 v2, typeMerged)
      else if prop = ''title'' then (mergeTitleComponent v1 v2, typeMerged)
      else if prop = ''type'' then (makeImplicit (JStr ''symbol''), True)
      else (defaultTieBreaker v1 v2 prop, typeMerged))"

text \<open>The body of the loop over \<^verbatim>\<open>VG_LEGEND_PROPERTIES\<close>.\<close>

definition merge_property ::
  "(explicit_value \<Rightarrow> explicit_value \<Rightarrow> explicit_value)
     \<Rightarrow> (explicit_value \<Rightarrow> explicit_value \<Rightarrow> string \<Rightarrow> explicit_value)
     \<Rightarrow> legend_component \<Rightarrow> string \<Rightarrow> legend_component \<times> bool \<Rightarrow> legend_component \<times> bool"
where
  "merge_property mergeTitleComponent defaultTieBreaker childLegend prop st =
     (let merged = mergeValuesWithExplicit
                     (getWithExplicit (fst st) prop) (getWithExplicit childLegend prop)
                     (tieBreaker mergeTitleComponent defaultTieBreaker prop) (snd st)
      in (setWithExplicit (fst st) prop (fst merged), snd merged))"

text \<open>\<^verbatim>\<open>((half || {}).encode || {}).gradient\<close>, as a condition.\<close>

definition has_gradient :: "(string \<times> json) list \<Rightarrow> bool" where
  "has_gradient half =
     (case map_of half ''encode'' of
        None \<Rightarrow> False
      | Some e \<Rightarrow>
          (if truthy e
           then (case js_get e ''gradient'' of None \<Rightarrow> False | Some g \<Rightarrow> truthy g)
           else False))"

definition strip_gradient :: "(string \<times> json) list \<Rightarrow> (string \<times> json) list" where
  "strip_gradient half =
     (if has_gradient half then deleteNestedProperty half [''encode'', ''gradient''] else half)"

text \<open>
  \<^verbatim>\<open>mergeLegendComponent(mergedLegend, childLegend)\<close>; \<open>None\<close> is \<^verbatim>\<open>undefined\<close>. The table
  \<^verbatim>\<open>VG_LEGEND_PROPERTIES\<close> is the parameter \<open>props\<close>. Values are compared by their
  structure.
\<close>

definition mergeLegendComponent ::
  "string list \<Rightarrow> (explicit_value \<Rightarrow> explicit_value \<Rightarrow> explicit_value)
     \<Rightarrow> (explicit_value \<Rightarrow> explicit_value \<Rightarrow> string \<Rightarrow> explicit_value)
     \<Rightarrow> legend_component option \<Rightarrow> legend_component \<Rightarrow> legend_component option"
where
  "mergeLegendComponent props mergeTitleComponent defaultTieBreaker mergedLegend childLegend =
     (case mergedLegend of
        None \<Rightarrow> Some (clone childLegend)
      | Some ml \<Rightarrow>
          (let mergedOrient = getWithExplicit ml ''orient'';
               childOrient = getWithExplicit childLegend ''orient''
           in if ex_explicit mergedOrient \<and> ex_explicit childOrient
                 \<and> ex_value mergedOrient \<noteq> ex_value childOrient
              then None
              else
                (let st = fold (merge_property mergeTitleComponent defaultTieBreaker childLegend)
                            props (ml, False);
                     typeMerged = snd st
                 in if typeMerged
                    then Some ((fst st)\<lparr>lc_implicit := strip_gradient (lc_implicit (fst st)),
                                        lc_explicit := strip_gradient (lc_explicit (fst st))\<rparr>)
                    else Some (fst st))))"

section \<open>Legends of a composite view\<close>

datatype resolve_mode = Shared | Independent

text \<open>\<^verbatim>\<open>model.component.resolve\<close>: the resolutions of scales and legends per channel.\<close>

record resolve =
  rs_scale :: "channel \<Rightarrow> resolve_mode option"
  rs_legend :: "channel \<Rightarrow> resolve_mode option"

text \<open>
  A composite model in \<^verbatim>\<open>parseNonUnitLegend\<close>: its legends per channel, its resolve
  component, and per child the legends that \<^verbatim>\<open>parseLegend(child)\<close> has left in
  \<^verbatim>\<open>child.component.legends\<close>.
\<close>

record composite =
  cm_legends :: "(channel \<times> legend_component) list"
  cm_resolve :: resolve
  cm_children :: "(channel \<times> legend_component) list list"

text \<open>
  The body of the loop over the channels of a child, \<open>cl\<close> being the child's legend of the
  channel. The function \<^verbatim>\<open>parseGuideResolve\<close> is a parameter.
\<close>

definition merge_channel ::
  "(resolve \<Rightarrow> channel \<Rightarrow> resolve_mode) \<Rightarrow> string list
     \<Rightarrow> (explicit_value \<Rightarrow> explicit_value \<Rightarrow> explicit_value)
     \<Rightarrow> (explicit_value \<Rightarrow> explicit_value \<Rightarrow> string \<Rightarrow> explicit_value)
     \<Rightarrow> channel \<times> legend_component \<Rightarrow> composite \<Rightarrow> composite"
where
  "merge_channel parseGuideResolve props mergeTitleComponent defaultTieBreaker entry st =
     (let channel = fst entry;
          resolve1 = (cm_resolve st)
            \<lparr>rs_legend := (rs_legend (cm_resolve st))
               (channel \<mapsto> parseGuideResolve (cm_resolve st) channel)\<rparr>
      in if rs_legend resolve1 channel = Some Shared then
           (case mergeLegendComponent props mergeTitleComponent defaultTieBreaker
                   (map_of (cm_legends st) channel) (snd entry) of
              Some merged \<Rightarrow>
                st\<lparr>cm_resolve := resolve1,
                   cm_legends := obj_set (cm_legends st) channel merged\<rparr>
            | None \<Rightarrow>
                st\<lparr>cm_resolve := resolve1\<lparr>rs_legend := (rs_legend resolve1)(channel \<mapsto> Independent)\<rparr>,
                   cm_legends := obj_delete (cm_legends st) channel\<rparr>)
         else st\<lparr>cm_resolve := resolve1\<rparr>)"

text \<open>The second loop: a shared legend is removed from every child that has one.\<close>

definition drop_shared :: "resolve \<Rightarrow> channel \<Rightarrow> (channel \<times> legend_component) list list
     \<Rightarrow> (channel \<times> legend_component) list list"
where
  "drop_shared res channel children =
     map (\<lambda>child. if map_of child channel = None then child
                   else if rs_legend res channel = Some Shared then obj_delete child channel
                   else child) children"

definition parseNonUnitLegend ::
  "(resolve \<Rightarrow> channel \<Rightarrow> resolve_mode) \<Rightarrow> string list
     \<Rightarrow> (explicit_value \<Rightarrow> explicit_value \<Rightarrow> explicit_value)
     \<Rightarrow> (explicit_value \<Rightarrow> explicit_value \<Rightarrow> string \<Rightarrow> explicit_value)
     \<Rightarrow> composite \<Rightarrow> composite"
where
  "parseNonUnitLegend parseGuideResolve props mergeTitleComponent defaultTieBreaker st =
     (let st1 = fold (\<lambda>child. fold (merge_channel parseGuideResolve props mergeTitleComponent
                                       defaultTieBreaker) child)
                  (cm_children st) st
      in st1\<lparr>cm_children :=
               fold (drop_shared (cm_resolve st1)) (map fst (cm_legends st1)) (cm_children st1)\<rparr>)"

section \<open>Sample inputs\<close>

text \<open>A stand-in for \<^verbatim>\<open>stringValue\<close>: the string in double quotes.\<close>

definition quoted :: "string \<Rightarrow> string" where
  "quoted s = [CHR 0x22] @ s @ [CHR 0x22]"

text \<open>
  A single-view chart whose color encodes the field \<^verbatim>\<open>Origin\<close>, with the point selection
  \<^verbatim>\<open>pt\<close> projected on that field.
\<close>

definition sel_pt :: selection_component where
  "sel_pt = \<lparr>sel_name = ''pt'', sel_fields = Some [''Origin''],
     sel_project = [\<lparr>p_field = ''Origin'', p_channel = Some ''color''\<rparr>],
     sel_timeUnit = None, sel_resolve = Global, sel_empty = EmptyAll\<rparr>"

text \<open>The interval selection \<^verbatim>\<open>brush\<close> over two position channels; it carries no \<^verbatim>\<open>fields\<close>.\<close>

definition sel_brush :: selection_component where
  "sel_brush = \<lparr>sel_name = ''brush'', sel_fields = None,
     sel_project = [\<lparr>p_field = ''Horsepower'', p_channel = Some ''x''\<rparr>,
                    \<lparr>p_field = ''Miles_per_Gallon'', p_channel = Some ''y''\<rparr>],
     sel_timeUnit = None, sel_resolve = Union, sel_empty = EmptyNone\<rparr>"

definition raw_field :: "string \<Rightarrow> field_def" where
  "raw_field f = \<lparr>fd_field = Some f, fd_bin = False, fd_aggregate = False, fd_timeUnit = False\<rparr>"

definition cars_model :: model where
  "cars_model = \<lparr>has_parent = False,
     component_selection = Some [(''pt'', sel_pt), (''brush'', sel_brush)],
     fieldDef = (\<lambda>c. if c = COLOR then Some (raw_field ''Origin'') else None),
     unitName = quoted ''view_1'',
     getSelectionComponent =
       (\<lambda>v n. if v = ''pt'' then Some sel_pt else if v = ''brush'' then Some sel_brush else None)\<rparr>"

text \<open>
  A second view beside it, with no selection of its own, that finds the selections of the
  first through its parent.
\<close>

definition detail_model :: model where
  "detail_model = \<lparr>has_parent = True,
     component_selection = Some [],
     fieldDef = (\<lambda>c. None),
     unitName = quoted ''view_2'',
     getSelectionComponent =
       (\<lambda>v n. if v = ''pt'' then Some sel_pt else if v = ''brush'' then Some sel_brush else None)\<rparr>"

text \<open>A stand-in for \<^verbatim>\<open>accessPathWithDatum\<close>: the field as a quoted key of the datum.\<close>

definition access_path :: "string \<Rightarrow> string \<Rightarrow> string" where
  "access_path field d = d @ ''['' @ quoted field @ '']''"

text \<open>Payloads of a selection-driven scale domain, already parsed.\<close>

definition domain_of :: "string \<Rightarrow> string option \<Rightarrow> string option \<Rightarrow> string \<Rightarrow> selection_domain option" where
  "domain_of sel encoding field raw =
     Some \<lparr>sd_selection = sel, sd_encoding = encoding, sd_field = field\<rparr>"

text \<open>
  The same chart with the size encoding the field \<^verbatim>\<open>Cylinders\<close> as well, and the chart with
  a selection that projects the two fields \<^verbatim>\<open>a\<close> and \<^verbatim>\<open>b\<close> while only \<^verbatim>\<open>a\<close> is encoded.
\<close>

definition bubble_model :: model where
  "bubble_model = cars_model\<lparr>fieldDef :=
     (\<lambda>c. if c = COLOR then Some (raw_field ''Origin'')
          else if c = SIZE then Some (raw_field ''Cylinders'') else None)\<rparr>"

definition sel_ab :: selection_component where
  "sel_ab = \<lparr>sel_name = ''ab'', sel_fields = Some [''a'', ''b''],
     sel_project = [\<lparr>p_field = ''a'', p_channel = Some ''color''\<rparr>,
                    \<lparr>p_field = ''b'', p_channel = Some ''size''\<rparr>],
     sel_timeUnit = None, sel_resolve = Global, sel_empty = EmptyAll\<rparr>"

definition ab_model :: model where
  "ab_model = \<lparr>has_parent = False,
     component_selection = Some [(''ab'', sel_ab)],
     fieldDef = (\<lambda>c. if c = COLOR then Some (raw_field ''a'') else None),
     unitName = quoted ''view_1'',
     getSelectionComponent = (\<lambda>v n. if v = ''ab'' then Some sel_ab else None)\<rparr>"

text \<open>
  The chart with color, size and opacity all encoding \<^verbatim>\<open>Origin\<close>, and the entry of the
  selection \<^verbatim>\<open>pt\<close> in the list of interactive selections.
\<close>

definition twin_model :: model where
  "twin_model = cars_model\<lparr>fieldDef :=
     (\<lambda>c. if c = COLOR \<or> c = SIZE \<or> c = OPACITY then Some (raw_field ''Origin'') else None)\<rparr>"

definition pt_interactive :: interactive_selection where
  "pt_interactive = \<lparr>is_name = ''pt'', is_store = quoted ''pt_store'', is_fields = [''Origin'']\<rparr>"

text \<open>What the binder makes of the empty encode block: the name it gives to a part.\<close>

definition rewritten_name :: "model \<Rightarrow> channel \<Rightarrow> string \<Rightarrow> json option" where
  "rewritten_name m channel part =
     (case updateInteractiveLegendComponent m [] channel [pt_interactive] of
        Inl e \<Rightarrow> None
      | Inr legendEncode \<Rightarrow> part_name legendEncode part)"


text \<open>
  Legend components: two with explicit orients that disagree, and an implicit gradient
  legend with a gradient encode entry beside an implicit symbol legend.
\<close>

definition left_legend :: legend_component where
  "left_legend = \<lparr>lc_explicit = [(''orient'', JStr ''left'')],
     lc_implicit = [(''type'', JStr ''symbol'')]\<rparr>"

definition right_legend :: legend_component where
  "right_legend = \<lparr>lc_explicit = [(''orient'', JStr ''right'')],
     lc_implicit = [(''type'', JStr ''symbol'')]\<rparr>"




text \<open>
  Stand-ins for the table \<^verbatim>\<open>VG_LEGEND_PROPERTIES\<close>, for the two tie-breakers that are
  parameters (both keep the first value), and for \<^verbatim>\<open>parseGuideResolve\<close>: an independent
  scale or an earlier decision for the channel decides, otherwise the legend is shared.
\<close>

definition legend_properties :: "string list" where
  "legend_properties = [''orient'', ''symbolType'', ''title'', ''type'', ''encode'']"

definition keep_first :: "explicit_value \<Rightarrow> explicit_value \<Rightarrow> explicit_value" where
  "keep_first v1 v2 = v1"

definition keep_first_of :: "explicit_value \<Rightarrow> explicit_value \<Rightarrow> string \<Rightarrow> explicit_value" where
  "keep_first_of v1 v2 prop = v1"

definition guide_resolve :: "resolve \<Rightarrow> channel \<Rightarrow> resolve_mode" where
  "guide_resolve res channel =
     (if rs_scale res channel = Some Independent then Independent
      else (case rs_legend res channel of None \<Rightarrow> Shared | Some mode \<Rightarrow> mode))"

text \<open>A layered view over two children whose color legends are the two with the orients.\<close>

definition layered :: composite where
  "layered = \<lparr>cm_legends = [],
     cm_resolve = \<lparr>rs_scale = (\<lambda>c. None), rs_legend = (\<lambda>c. None)\<rparr>,
     cm_children = [[(COLOR, left_legend)], [(COLOR, right_legend)]]\<rparr>"

text \<open>
  A stand-in for the compiler of a selection type: one tuple signal with a click handler,
  and the tuple signal as the modify expression. No transforms.
\<close>

definition point_compiler :: selection_compiler where
  "point_compiler =
     \<lparr>c_signals = (\<lambda>m selCmpt.
        [\<lparr>sg_name = sel_name selCmpt @ TUPLE, sg_value = None, sg_update = None,
          sg_on = Some [\<lparr>h_events = JStr ''click'',
                         h_update = ''datum ? {unit: '' @ unitName m @ ''} : null''\<rparr>]\<rparr>]),
      c_modifyExpr = (\<lambda>m selCmpt. sel_name selCmpt @ TUPLE)\<rparr>"

text \<open>What a run of the signal assembly leaves as the signal of a name.\<close>

definition assembled_signal :: "model \<Rightarrow> string \<Rightarrow> signal option" where
  "assembled_signal m n =
     (case assembleUnitSelectionSignals (\<lambda>selCmpt. point_compiler) (\<lambda>selCmpt. []) quoted m [] of
        Inl e \<Rightarrow> None
      | Inr signals \<Rightarrow> signal_named n signals)"

section \<open>Properties of the expression assembler\<close>

text \<open>
  C7. An array is rendered as the bracketed, comma-joined list of its recursively assembled
  elements, the brackets themselves not passing through \<open>wrap\<close>; a date-time object is
  rendered by the date-expression constructor and then wrapped; any other scalar is
  rendered by its JSON serialization and then wrapped. For
  \<^verbatim>\<open>[{year: 2020, month: 1, date: 1}, 5]\<close> and the identity wrap the result has two
  elements in brackets: the date-constructor expression and, the serialization of 5 being
  \<^verbatim>\<open>5\<close>, the literal \<^verbatim>\<open>5\<close>.
\<close>

theorem assembleInit_renders:
  "assembleInit isDT dte str wrap (JArr xs) =
     ''['' @ join '', '' (map (assembleInit isDT dte str wrap) xs) @ '']''
   \<and> (\<not> isArray v \<and> isDT v \<longrightarrow> assembleInit isDT dte str wrap v = wrap (dte v))
   \<and> (\<not> isArray w \<and> \<not> isDT w \<longrightarrow> assembleInit isDT dte str wrap w = wrap (str w))
   \<and> (isDT date_2020_01_01 \<and> \<not> isDT (JNum 5) \<and> str (JNum 5) = ''5'' \<longrightarrow>
        assembleInit isDT dte str identity init_example = ''['' @ dte date_2020_01_01 @ '', 5]'')"
proof -
  have scalar: "\<not> isArray u \<Longrightarrow>
      assembleInit isDT dte str wrap u = (if isDT u then wrap (dte u) else wrap (str u))" for u
    by (cases u) simp_all
  have "isDT date_2020_01_01 \<and> \<not> isDT (JNum 5) \<and> str (JNum 5) = ''5'' \<longrightarrow>
        assembleInit isDT dte str identity init_example = ''['' @ dte date_2020_01_01 @ '', 5]''"
    by (simp add: init_example_def date_2020_01_01_def identity_def)
  then show ?thesis
    by (simp add: scalar)
qed

theorem assembleInit_renders_witness:
  "assembleInit (\<lambda>v. v = date_2020_01_01) (\<lambda>v. ''datetime(2020, 0, 1, 0, 0, 0, 0)'') (\<lambda>v. ''5'')
      (\<lambda>s. ''toDate('' @ s @ '')'') date_2020_01_01 = ''toDate(datetime(2020, 0, 1, 0, 0, 0, 0))''
   \<and> assembleInit (\<lambda>v. v = date_2020_01_01) (\<lambda>v. ''datetime(2020, 0, 1, 0, 0, 0, 0)'') (\<lambda>v. ''5'')
      (\<lambda>s. ''toDate('' @ s @ '')'') (JNum 5) = ''toDate(5)''
   \<and> assembleInit (\<lambda>v. v = date_2020_01_01) (\<lambda>v. ''datetime(2020, 0, 1, 0, 0, 0, 0)'') (\<lambda>v. ''5'')
      identity init_example = ''[datetime(2020, 0, 1, 0, 0, 0, 0), 5]''"
  using assembleInit_renders [of "\<lambda>v. v = date_2020_01_01"
      "\<lambda>v. ''datetime(2020, 0, 1, 0, 0, 0, 0)''" "\<lambda>v. ''5''" "\<lambda>s. ''toDate('' @ s @ '')''" "[]"
      date_2020_01_01 "JNum 5"]
  by (simp add: date_2020_01_01_def)

section \<open>Properties of the store datasets\<close>

lemma forEachSelection_fold: "forEachSelection m cb s = fold cb (selections_of m) s"
  by (simp add: forEachSelection_def selections_of_def split: option.splits)

lemma store_data_present:
  "n \<in> d_name ` set data \<Longrightarrow> n \<in> d_name ` set (store_data c data)"
  by (auto simp: store_data_def Let_def)

lemma store_data_own: "sel_name c @ STORE \<in> d_name ` set (store_data c data)"
  by (force simp: store_data_def Let_def filter_empty_conv image_iff)

lemma store_data_noop:
  "sel_name c @ STORE \<in> d_name ` set data \<Longrightarrow> store_data c data = data"
  by (auto simp: store_data_def Let_def filter_empty_conv)

lemma fold_store_data_present:
  "n \<in> d_name ` set data \<Longrightarrow> n \<in> d_name ` set (fold store_data cs data)"
  by (induction cs arbitrary: data) (simp_all add: store_data_present)

lemma fold_store_data_own:
  "c \<in> set cs \<Longrightarrow> sel_name c @ STORE \<in> d_name ` set (fold store_data cs data)"
proof (induction cs arbitrary: data)
  case Nil
  then show ?case by simp
next
  case (Cons a cs)
  show ?case
  proof (cases "c = a")
    case True
    then show ?thesis
      using fold_store_data_present [OF store_data_own] by simp
  next
    case False
    then show ?thesis
      using Cons by simp
  qed
qed

lemma fold_store_data_noop:
  "\<forall>c \<in> set cs. sel_name c @ STORE \<in> d_name ` set data \<Longrightarrow> fold store_data cs data = data"
  by (induction cs) (simp_all add: store_data_noop)

lemma fold_store_data_appends:
  "\<exists>new. fold store_data cs data = data @ new \<and> fresh_stores cs data new"
proof (induction cs arbitrary: data)
  case Nil
  then show ?case by (simp add: fresh_stores_def)
next
  case (Cons a cs)
  show ?case
  proof (cases "sel_name a @ STORE \<in> d_name ` set data")
    case True
    then have "store_data a data = data"
      by (rule store_data_noop)
    moreover obtain new where "fold store_data cs data = data @ new" "fresh_stores cs data new"
      using Cons by blast
    ultimately show ?thesis
      by (auto simp: fresh_stores_def)
  next
    case False
    let ?d = "\<lparr>d_name = sel_name a @ STORE, d_rest = []\<rparr>"
    from False have sd: "store_data a data = data @ [?d]"
      by (force simp: store_data_def Let_def filter_empty_conv image_iff)
    obtain new where n: "fold store_data cs (data @ [?d]) = (data @ [?d]) @ new"
      "fresh_stores cs (data @ [?d]) new"
      using Cons by blast
    have "fresh_stores (a # cs) data (?d # new)"
      using n(2) False by (auto simp: fresh_stores_def)
    then show ?thesis
      using sd n(1) by auto
  qed
qed

text \<open>
  C8. Assembling the selection data of a unit model twice gives what assembling it once
  gives. One run only appends to the incoming list: empty-initialized datasets named
  \<^verbatim>\<open><selection>_store\<close>, pairwise different, none of a name the list already held; and
  afterwards every selection of the model has its store dataset.
\<close>

theorem assembleUnitSelectionData_idempotent:
  "assembleUnitSelectionData m (assembleUnitSelectionData m data) = assembleUnitSelectionData m data
   \<and> (\<exists>new. assembleUnitSelectionData m data = data @ new \<and> fresh_stores (selections_of m) data new)
   \<and> (\<forall>c \<in> set (selections_of m). sel_name c @ STORE \<in> d_name ` set (assembleUnitSelectionData m data))"
  unfolding assembleUnitSelectionData_def forEachSelection_fold
  using fold_store_data_appends [of "selections_of m" data]
  by (auto intro!: fold_store_data_noop fold_store_data_own)

theorem assembleUnitSelectionData_idempotent_witness:
  "assembleUnitSelectionData cars_model
      (assembleUnitSelectionData cars_model [\<lparr>d_name = ''pt_store'', d_rest = []\<rparr>])
     = [\<lparr>d_name = ''pt_store'', d_rest = []\<rparr>, \<lparr>d_name = ''brush_store'', d_rest = []\<rparr>]
   \<and> assembleUnitSelectionData cars_model [\<lparr>d_name = ''pt_store'', d_rest = []\<rparr>]
     = [\<lparr>d_name = ''pt_store'', d_rest = []\<rparr>, \<lparr>d_name = ''brush_store'', d_rest = []\<rparr>]
   \<and> selections_of cars_model = [sel_pt, sel_brush]"
proof -
  have run: "assembleUnitSelectionData cars_model [\<lparr>d_name = ''pt_store'', d_rest = []\<rparr>]
     = [\<lparr>d_name = ''pt_store'', d_rest = []\<rparr>, \<lparr>d_name = ''brush_store'', d_rest = []\<rparr>]"
    by (simp add: assembleUnitSelectionData_def forEachSelection_def cars_model_def sel_pt_def
        sel_brush_def store_data_def STORE_def)
  have sels: "selections_of cars_model = [sel_pt, sel_brush]"
    by (simp add: selections_of_def cars_model_def)
  show ?thesis
    using assembleUnitSelectionData_idempotent [of cars_model "[\<lparr>d_name = ''pt_store'', d_rest = []\<rparr>]"]
    by (simp add: run sels)
qed

section \<open>Properties of the selection predicate\<close>

text \<open>
  C1. For a tree that is the lone leaf naming a selection whose projection has no time unit:
  with the \<^verbatim>\<open>empty\<close> policy \<^verbatim>\<open>all\<close> the predicate is the parenthesized base test behind the
  prefix \<^verbatim>\<open>!(length(data(<store>))) || \<close>, with the policy \<^verbatim>\<open>none\<close> it is the parenthesized
  base test with no prefix. The dataflow is left as it was.
\<close>

theorem assembleSelectionPredicate_lone_leaf:
  assumes "getSelectionComponent m (varName name) name = Some S"
    and "sel_timeUnit S = None"
  shows
    "(sel_empty S = EmptyAll \<longrightarrow>
        assembleSelectionPredicate fmt stringValue varName m (Leaf name) chain =
          Inr (''!(length(data('' @ stringValue (varName name @ STORE) @ ''))) || '' @
               ''('' @ ''vlSelectionTest('' @ stringValue (varName name @ STORE) @ '', datum'' @
                 (if sel_resolve S = Global then '')''
                  else '', '' @ stringValue (resolution_name (sel_resolve S)) @ '')'') @ '')'',
               chain))
     \<and> (sel_empty S = EmptyNone \<longrightarrow>
        assembleSelectionPredicate fmt stringValue varName m (Leaf name) chain =
          Inr (''('' @ ''vlSelectionTest('' @ stringValue (varName name @ STORE) @ '', datum'' @
                 (if sel_resolve S = Global then '')''
                  else '', '' @ stringValue (resolution_name (sel_resolve S)) @ '')'') @ '')'',
               chain))"
  using assms
  by (simp add: assembleSelectionPredicate_def expr_def Let_def)

theorem assembleSelectionPredicate_lone_leaf_witness:
  "assembleSelectionPredicate \<lparr>fmt_not = id, fmt_and = concat, fmt_or = concat\<rparr> quoted id
      cars_model (Leaf ''pt'') [] =
     Inr (''!(length(data(\"pt_store\"))) || (vlSelectionTest(\"pt_store\", datum))'', [])
   \<and> assembleSelectionPredicate \<lparr>fmt_not = id, fmt_and = concat, fmt_or = concat\<rparr> quoted id
      cars_model (Leaf ''brush'') [] =
     Inr (''(vlSelectionTest(\"brush_store\", datum, \"union\"))'', [])"
proof -
  have pt: "getSelectionComponent cars_model (id ''pt'') ''pt'' = Some sel_pt"
    and brush: "getSelectionComponent cars_model (id ''brush'') ''brush'' = Some sel_brush"
    by (simp_all add: cars_model_def)
  have tu: "sel_timeUnit sel_pt = None" "sel_timeUnit sel_brush = None"
    by (simp_all add: sel_pt_def sel_brush_def)
  show ?thesis
    using assembleSelectionPredicate_lone_leaf [where m = cars_model and varName = id
        and name = "''pt''" and S = sel_pt and stringValue = quoted and chain = "[]"
        and fmt = "\<lparr>fmt_not = id, fmt_and = concat, fmt_or = concat\<rparr>"]
      assembleSelectionPredicate_lone_leaf [where m = cars_model and varName = id
        and name = "''brush''" and S = sel_brush and stringValue = quoted and chain = "[]"
        and fmt = "\<lparr>fmt_not = id, fmt_and = concat, fmt_or = concat\<rparr>"]
      pt brush tu
    by (simp add: sel_pt_def sel_brush_def quoted_def STORE_def)
qed

section \<open>Properties of the scale-domain rewriter\<close>

text \<open>
  C6. When the model itself holds a selection component of the name, the result is the
  literal signal \<^verbatim>\<open>null\<close> with one warning and nothing else. Otherwise the field is
  resolved in this order: a given field is used as it is; else, with a given encoding
  channel, the field of the one projection entry of that channel, and with no or several
  such entries the first projected field with one warning; else the first projected field,
  with a warning when the selection projects more than one field.
\<close>

theorem assembleSelectionScaleDomain_resolution:
  assumes "parse domainRaw = Some sd"
  shows
    "(own_selection m (varName (sd_selection sd)) \<noteq> None \<longrightarrow>
        assembleSelectionScaleDomain parse stringValue varName access m domainRaw =
          Inr (''null'', [warn_bind_scales]))
     \<and> (own_selection m (varName (sd_selection sd)) = None
          \<and> getSelectionComponent m (varName (sd_selection sd)) (sd_selection sd) = Some S \<longrightarrow>
        (sd_field sd = Some f \<and> f \<noteq> [] \<longrightarrow>
           assembleSelectionScaleDomain parse stringValue varName access m domainRaw =
             Inr (access f (varName (sd_selection sd)), []))
        \<and> (\<not> given (sd_field sd) \<and> sd_encoding sd = Some enc \<and> enc \<noteq> []
             \<and> filter (\<lambda>p. p_channel p = Some enc) (sel_project S) = [p] \<longrightarrow>
           assembleSelectionScaleDomain parse stringValue varName access m domainRaw =
             Inr (access (p_field p) (varName (sd_selection sd)), []))
        \<and> (\<not> given (sd_field sd) \<and> sd_encoding sd = Some enc \<and> enc \<noteq> []
             \<and> length (filter (\<lambda>p. p_channel p = Some enc) (sel_project S)) \<noteq> 1
             \<and> sel_project S = p0 # ps \<longrightarrow>
           assembleSelectionScaleDomain parse stringValue varName access m domainRaw =
             Inr (access (p_field p0) (varName (sd_selection sd)),
                  [warn_encoding (filter (\<lambda>p. p_channel p = Some enc) (sel_project S) = [])
                     (stringValue enc) (stringValue (sd_selection sd)) (stringValue (p_field p0))]))
        \<and> (\<not> given (sd_field sd) \<and> \<not> given (sd_encoding sd) \<and> sel_project S = p0 # ps \<longrightarrow>
           assembleSelectionScaleDomain parse stringValue varName access m domainRaw =
             Inr (access (p_field p0) (varName (sd_selection sd)),
                  if ps \<noteq> [] then [warn_no_field (stringValue (p_field p0))] else [])))"
proof -
  have null: "own_selection m (varName (sd_selection sd)) \<noteq> None \<Longrightarrow>
        assembleSelectionScaleDomain parse stringValue varName access m domainRaw =
          Inr (''null'', [warn_bind_scales])"
    using assms by (auto simp: assembleSelectionScaleDomain_def Let_def)
  have found: "assembleSelectionScaleDomain parse stringValue varName access m domainRaw =
      (if \<not> given (sd_encoding sd) \<and> \<not> given (sd_field sd) then
         (case sel_project S of
            [] \<Rightarrow> Inl TypeError
          | p # ps \<Rightarrow>
              Inr (access (p_field p) (varName (sd_selection sd)),
                   (if length (sel_project S) > 1
                    then [warn_no_field (stringValue (p_field p))] else [])))
       else if given (sd_encoding sd) \<and> \<not> given (sd_field sd) then
         (let encodings = filter (\<lambda>p. p_channel p = sd_encoding sd) (sel_project S)
          in if encodings = [] \<or> length encodings > 1 then
               (case sel_project S of
                  [] \<Rightarrow> Inl TypeError
                | p # ps \<Rightarrow>
                    Inr (access (p_field p) (varName (sd_selection sd)),
                         [warn_encoding (encodings = [])
                            (stringValue (js_string (sd_encoding sd)))
                            (stringValue (sd_selection sd))
                            (stringValue (p_field p))]))
             else
               (case encodings of
                  [] \<Rightarrow> Inl TypeError
                | e # es \<Rightarrow> Inr (access (p_field e) (varName (sd_selection sd)), [])))
       else Inr (access (js_string (sd_field sd)) (varName (sd_selection sd)), []))"
    if "own_selection m (varName (sd_selection sd)) = None"
      and "getSelectionComponent m (varName (sd_selection sd)) (sd_selection sd) = Some S"
    using assms that by (simp add: assembleSelectionScaleDomain_def Let_def)
  have many: "assembleSelectionScaleDomain parse stringValue varName access m domainRaw =
             Inr (access (p_field p0) (varName (sd_selection sd)),
                  [warn_encoding (filter (\<lambda>p. p_channel p = Some enc) (sel_project S) = [])
                     (stringValue enc) (stringValue (sd_selection sd)) (stringValue (p_field p0))])"
    if own: "own_selection m (varName (sd_selection sd)) = None"
      and get: "getSelectionComponent m (varName (sd_selection sd)) (sd_selection sd) = Some S"
      and nf: "\<not> given (sd_field sd)" and enc: "sd_encoding sd = Some enc" "enc \<noteq> []"
      and len: "length (filter (\<lambda>p. p_channel p = Some enc) (sel_project S)) \<noteq> 1"
      and proj: "sel_project S = p0 # ps"
    for enc p0 ps
  proof -
    define es where "es = filter (\<lambda>p. p_channel p = Some enc) (sel_project S)"
    have es: "es = [] \<or> length es > 1"
      using len unfolding es_def [symmetric] by (cases es) auto
    have r: "assembleSelectionScaleDomain parse stringValue varName access m domainRaw =
        (case sel_project S of
           [] \<Rightarrow> Inl TypeError
         | p # ps \<Rightarrow>
             Inr (access (p_field p) (varName (sd_selection sd)),
                  [warn_encoding (es = []) (stringValue enc) (stringValue (sd_selection sd))
                     (stringValue (p_field p))]))"
      unfolding found [OF own get] using nf enc es by (simp add: Let_def es_def split: list.split)
    show ?thesis
      unfolding r es_def [symmetric] by (simp add: proj)
  qed
  have single: "assembleSelectionScaleDomain parse stringValue varName access m domainRaw =
             Inr (access (p_field p) (varName (sd_selection sd)), [])"
    if own: "own_selection m (varName (sd_selection sd)) = None"
      and get: "getSelectionComponent m (varName (sd_selection sd)) (sd_selection sd) = Some S"
      and nf: "\<not> given (sd_field sd)" and enc: "sd_encoding sd = Some enc" "enc \<noteq> []"
      and one: "filter (\<lambda>p. p_channel p = Some enc) (sel_project S) = [p]"
    for enc p
    unfolding found [OF own get] using nf enc one by (simp add: Let_def)
  have first: "assembleSelectionScaleDomain parse stringValue varName access m domainRaw =
             Inr (access (p_field p0) (varName (sd_selection sd)),
                  if ps \<noteq> [] then [warn_no_field (stringValue (p_field p0))] else [])"
    if own: "own_selection m (varName (sd_selection sd)) = None"
      and get: "getSelectionComponent m (varName (sd_selection sd)) (sd_selection sd) = Some S"
      and nf: "\<not> given (sd_field sd)" and ne: "\<not> given (sd_encoding sd)"
      and proj: "sel_project S = p0 # ps"
    for p0 ps
    unfolding found [OF own get] using nf ne proj by simp
  have field: "assembleSelectionScaleDomain parse stringValue varName access m domainRaw =
             Inr (access f (varName (sd_selection sd)), [])"
    if own: "own_selection m (varName (sd_selection sd)) = None"
      and get: "getSelectionComponent m (varName (sd_selection sd)) (sd_selection sd) = Some S"
      and f: "sd_field sd = Some f" "f \<noteq> []"
    for f
    unfolding found [OF own get] using f by simp
  show ?thesis
    using null field single many first by blast
qed


theorem assembleSelectionScaleDomain_resolution_witness:
  "assembleSelectionScaleDomain (domain_of ''pt'' None None) quoted id access_path cars_model [] =
     Inr (''null'', [warn_bind_scales])
   \<and> assembleSelectionScaleDomain (domain_of ''brush'' (Some ''x'') (Some ''Miles_per_Gallon''))
       quoted id access_path detail_model [] =
     Inr (access_path ''Miles_per_Gallon'' ''brush'', [])
   \<and> assembleSelectionScaleDomain (domain_of ''brush'' (Some ''y'') None)
       quoted id access_path detail_model [] =
     Inr (access_path ''Miles_per_Gallon'' ''brush'', [])
   \<and> assembleSelectionScaleDomain (domain_of ''brush'' (Some ''color'') None)
       quoted id access_path detail_model [] =
     Inr (access_path ''Horsepower'' ''brush'',
          [warn_encoding True (quoted ''color'') (quoted ''brush'') (quoted ''Horsepower'')])
   \<and> assembleSelectionScaleDomain (domain_of ''brush'' None None)
       quoted id access_path detail_model [] =
     Inr (access_path ''Horsepower'' ''brush'', [warn_no_field (quoted ''Horsepower'')])"
proof -
  note models = own_selection_def cars_model_def detail_model_def sel_brush_def sel_pt_def
    domain_of_def
  have own: "assembleSelectionScaleDomain (domain_of ''pt'' None None) quoted id access_path
      cars_model [] = Inr (''null'', [warn_bind_scales])"
    using assembleSelectionScaleDomain_resolution [where parse = "domain_of ''pt'' None None"
        and domainRaw = "[]" and m = cars_model and varName = id and stringValue = quoted
        and access = access_path
        and sd = "\<lparr>sd_selection = ''pt'', sd_encoding = None, sd_field = None\<rparr>"]
    by (simp add: models)
  have field: "assembleSelectionScaleDomain
      (domain_of ''brush'' (Some ''x'') (Some ''Miles_per_Gallon''))
      quoted id access_path detail_model [] = Inr (access_path ''Miles_per_Gallon'' ''brush'', [])"
    using assembleSelectionScaleDomain_resolution
      [where parse = "domain_of ''brush'' (Some ''x'') (Some ''Miles_per_Gallon'')"
        and domainRaw = "[]" and m = detail_model and varName = id and stringValue = quoted
        and access = access_path and S = sel_brush and f = "''Miles_per_Gallon''"
        and sd = "\<lparr>sd_selection = ''brush'', sd_encoding = Some ''x'',
                    sd_field = Some ''Miles_per_Gallon''\<rparr>"]
    by (simp add: models)
  have single: "assembleSelectionScaleDomain (domain_of ''brush'' (Some ''y'') None)
      quoted id access_path detail_model [] = Inr (access_path ''Miles_per_Gallon'' ''brush'', [])"
    using assembleSelectionScaleDomain_resolution
      [where parse = "domain_of ''brush'' (Some ''y'') None"
        and domainRaw = "[]" and m = detail_model and varName = id and stringValue = quoted
        and access = access_path and S = sel_brush and enc = "''y''"
        and p = "\<lparr>p_field = ''Miles_per_Gallon'', p_channel = Some ''y''\<rparr>"
        and sd = "\<lparr>sd_selection = ''brush'', sd_encoding = Some ''y'', sd_field = None\<rparr>"]
    by (simp add: models)
  have none: "assembleSelectionScaleDomain (domain_of ''brush'' (Some ''color'') None)
      quoted id access_path detail_model [] =
     Inr (access_path ''Horsepower'' ''brush'',
          [warn_encoding True (quoted ''color'') (quoted ''brush'') (quoted ''Horsepower'')])"
    using assembleSelectionScaleDomain_resolution
      [where parse = "domain_of ''brush'' (Some ''color'') None"
        and domainRaw = "[]" and m = detail_model and varName = id and stringValue = quoted
        and access = access_path and S = sel_brush and enc = "''color''"
        and ?p0.0 = "\<lparr>p_field = ''Horsepower'', p_channel = Some ''x''\<rparr>"
        and ps = "[\<lparr>p_field = ''Miles_per_Gallon'', p_channel = Some ''y''\<rparr>]"
        and sd = "\<lparr>sd_selection = ''brush'', sd_encoding = Some ''color'', sd_field = None\<rparr>"]
    by (simp add: models)
  have neither: "assembleSelectionScaleDomain (domain_of ''brush'' None None)
      quoted id access_path detail_model [] =
     Inr (access_path ''Horsepower'' ''brush'', [warn_no_field (quoted ''Horsepower'')])"
    using assembleSelectionScaleDomain_resolution
      [where parse = "domain_of ''brush'' None None"
        and domainRaw = "[]" and m = detail_model and varName = id and stringValue = quoted
        and access = access_path and S = sel_brush
        and ?p0.0 = "\<lparr>p_field = ''Horsepower'', p_channel = Some ''x''\<rparr>"
        and ps = "[\<lparr>p_field = ''Miles_per_Gallon'', p_channel = Some ''y''\<rparr>]"
        and sd = "\<lparr>sd_selection = ''brush'', sd_encoding = None, sd_field = None\<rparr>"]
    by (simp add: models)
  show ?thesis
    using own field single none neither by simp
qed

section \<open>Properties of the interactive-legend test\<close>

lemma indexOf_ge: "indexOf xs v \<ge> -1"
  by (induction xs) (auto simp: Let_def)

lemma indexOf_absent: "indexOf xs v = -1 \<longleftrightarrow> v \<notin> set xs"
proof (induction xs)
  case Nil
  then show ?case by simp
next
  case (Cons x xs)
  then show ?case
    using indexOf_ge [of xs v] by (auto simp: Let_def)
qed

lemma indexOf_nth: "v \<in> set xs \<Longrightarrow> nat (indexOf xs v) < length xs \<and> xs ! nat (indexOf xs v) = v
    \<and> indexOf xs v \<ge> 0"
proof (induction xs)
  case Nil
  then show ?case by simp
next
  case (Cons x xs)
  show ?case
  proof (cases "x = v")
    case True
    then show ?thesis by simp
  next
    case False
    with Cons have "v \<in> set xs" by simp
    with Cons.IH have "nat (indexOf xs v) < length xs" "xs ! nat (indexOf xs v) = v" "indexOf xs v \<ge> 0"
      by simp_all
    then show ?thesis
      using False by (simp add: Let_def nat_add_distrib)
  qed
qed

lemma set_unique: "set (unique xs) = set xs"
proof
  show "set (unique xs) \<subseteq> set xs"
    by (auto simp: unique_def dest: set_zip_leftD)
next
  show "set xs \<subseteq> set (unique xs)"
  proof
    fix v
    assume v: "v \<in> set xs"
    let ?i = "nat (indexOf xs v)"
    from indexOf_nth [OF v] have i: "?i < length xs" "xs ! ?i = v" "indexOf xs v \<ge> 0"
      by simp_all
    then have "(v, ?i) \<in> set (zip xs [0..<length xs])"
      by (auto simp: set_zip intro!: exI [of _ ?i])
    moreover have "indexOf xs v = int ?i"
      using i(3) by simp
    ultimately show "v \<in> set (unique xs)"
      unfolding unique_def by force
  qed
qed

lemma fold_push_selection:
  "fold (push_selection sv) cs acc =
     acc @ concat (map (\<lambda>c. case sel_fields c of None \<Rightarrow> []
        | Some fs \<Rightarrow> [\<lparr>is_name = sel_name c, is_store = sv (sel_name c @ STORE), is_fields = fs\<rparr>]) cs)"
  by (induction cs arbitrary: acc) (auto simp: push_selection_def split: option.splits)

lemma fold_push_encoding_field:
  "set (fold (push_encoding_field m) chs acc) =
     set acc \<union> {fd_field fd | fd channel. channel \<in> set chs \<and> fieldDef m channel = Some fd
        \<and> \<not> (fd_bin fd \<or> fd_aggregate fd \<or> fd_timeUnit fd)}"
proof (induction chs arbitrary: acc)
  case Nil
  then show ?case by simp
next
  case (Cons c chs)
  show ?case
    unfolding fold_simps Cons.IH
    by (auto simp: push_encoding_field_def split: option.splits)
qed

lemma encoding_fields: "set (fold (push_encoding_field m) [COLOR, OPACITY, SIZE, SHAPE] []) = encoded_fields m"
  unfolding fold_push_encoding_field encoded_fields_def by auto

lemma pushed_fields:
  "(\<Union>s \<in> set (concat (map (\<lambda>c. case sel_fields c of None \<Rightarrow> []
        | Some fs \<Rightarrow> [\<lparr>is_name = sel_name c, is_store = sv (sel_name c @ STORE), is_fields = fs\<rparr>]) cs)).
      set (is_fields s))
   = (\<Union>c \<in> set cs. case sel_fields c of None \<Rightarrow> {} | Some fs \<Rightarrow> set fs)"
  by (induction cs) (auto split: option.splits)

lemma selections_fields:
  "(\<Union>s \<in> set (forEachSelection m (push_selection sv) []). set (is_fields s)) = projected_fields m"
  unfolding forEachSelection_fold fold_push_selection projected_fields_def append_Nil
  by (rule pushed_fields)

lemma selections_empty:
  "forEachSelection m (push_selection sv) [] = [] \<longleftrightarrow> \<not> some_selection_projects m"
  unfolding forEachSelection_fold fold_push_selection some_selection_projects_def
  by (auto split: option.splits)

lemma interactiveLegendExists_nonempty:
  "(interactiveLegendExists sv m \<noteq> [] \<longleftrightarrow>
      \<not> has_parent m \<and> some_selection_projects m \<and> Some ` projected_fields m \<subseteq> encoded_fields m)
   \<and> (interactiveLegendExists sv m \<noteq> [] \<longrightarrow>
      interactiveLegendExists sv m = forEachSelection m (push_selection sv) [])"
proof -
  let ?sels = "forEachSelection m (push_selection sv) []"
  let ?enc = "unique (fold (push_encoding_field m) [COLOR, OPACITY, SIZE, SHAPE] [])"
  have diff: "filter (\<lambda>x. indexOf ?enc (Some x) = -1) (unique (flatten (map is_fields ?sels))) = []
      \<longleftrightarrow> Some ` projected_fields m \<subseteq> encoded_fields m"
    unfolding filter_empty_conv indexOf_absent set_unique encoding_fields flatten_def
    using selections_fields [of m sv] by auto
  have unfold: "interactiveLegendExists sv m =
      (if has_parent m then []
       else if ?sels = [] then []
       else if filter (\<lambda>x. indexOf ?enc (Some x) = -1) (unique (flatten (map is_fields ?sels))) \<noteq> []
            then [] else ?sels)"
    by (simp add: interactiveLegendExists_def Let_def)
  show ?thesis
  proof (cases "has_parent m \<or> ?sels = []")
    case True
    then show ?thesis
      using selections_empty [of m sv] by (auto simp: unfold)
  next
    case False
    then have "\<not> has_parent m" "?sels \<noteq> []" "some_selection_projects m"
      using selections_empty [of m sv] by auto
    then show ?thesis
      unfolding unfold using diff by simp
  qed
qed

text \<open>
  C2. \<^verbatim>\<open>interactiveLegendExists\<close> returns a non-empty list, and then the list of all
  field-projecting selections, exactly when the model has no parent, some selection
  projects fields, and every projected field is among the fields of the color, opacity, size
  and shape encodings, where an encoding with bin, aggregate or time unit does not count.
  (The encodings may use further fields.)
\<close>

theorem interactiveLegendExists_covered:
  "(interactiveLegendExists sv m \<noteq> [] \<longleftrightarrow>
      \<not> has_parent m \<and> some_selection_projects m \<and> Some ` projected_fields m \<subseteq> encoded_fields m)
   \<and> (interactiveLegendExists sv m \<noteq> [] \<longrightarrow>
      interactiveLegendExists sv m = forEachSelection m (push_selection sv) [])"
  by (rule interactiveLegendExists_nonempty)

lemma encoded_fields_cars: "encoded_fields cars_model = {Some ''Origin''}"
  unfolding encoded_fields_def cars_model_def
  by (auto simp: raw_field_def intro!: exI [of _ "raw_field ''Origin''"] exI [of _ COLOR])

lemma encoded_fields_ab: "encoded_fields ab_model = {Some ''a''}"
  unfolding encoded_fields_def ab_model_def
  by (auto simp: raw_field_def intro!: exI [of _ "raw_field ''a''"] exI [of _ COLOR])

lemma projected_fields_cars: "projected_fields cars_model = {''Origin''}"
  by (simp add: projected_fields_def selections_of_def cars_model_def sel_pt_def sel_brush_def)

lemma projected_fields_ab: "projected_fields ab_model = {''a'', ''b''}"
  by (auto simp: projected_fields_def selections_of_def ab_model_def sel_ab_def)

theorem interactiveLegendExists_covered_witness:
  "interactiveLegendExists quoted cars_model =
     [\<lparr>is_name = ''pt'', is_store = quoted ''pt_store'', is_fields = [''Origin'']\<rparr>]
   \<and> interactiveLegendExists quoted ab_model = []
   \<and> interactiveLegendExists quoted detail_model = []"
proof -
  have "some_selection_projects cars_model"
    by (simp add: some_selection_projects_def selections_of_def cars_model_def sel_pt_def)
  moreover have "\<not> has_parent cars_model" "has_parent detail_model"
    by (simp_all add: cars_model_def detail_model_def)
  moreover have "forEachSelection cars_model (push_selection quoted) [] =
      [\<lparr>is_name = ''pt'', is_store = quoted ''pt_store'', is_fields = [''Origin'']\<rparr>]"
    by (simp add: forEachSelection_def cars_model_def push_selection_def sel_pt_def sel_brush_def
        STORE_def)
  ultimately show ?thesis
    using interactiveLegendExists_covered [of quoted cars_model]
      interactiveLegendExists_covered [of quoted ab_model]
      interactiveLegendExists_covered [of quoted detail_model]
    by (simp add: encoded_fields_cars encoded_fields_ab projected_fields_cars projected_fields_ab)
qed

text \<open>
  The specification asks for the two field sets to be equal. The chart whose
  color encodes \<^verbatim>\<open>Origin\<close> and whose size encodes \<^verbatim>\<open>Cylinders\<close>, with the selection projected on
  \<^verbatim>\<open>Origin\<close> alone, gets a non-empty list although the sets differ.
\<close>

theorem interactiveLegendExists_covered_counterexample:
  "interactiveLegendExists quoted bubble_model \<noteq> [] \<and> \<not> spec_fields_exactly_covered bubble_model"
proof -
  have size: "Some ''Cylinders'' \<in> encoded_fields bubble_model"
    unfolding encoded_fields_def bubble_model_def
    by (auto simp: raw_field_def intro!: exI [of _ "raw_field ''Cylinders''"] exI [of _ SIZE])
  have color: "Some ''Origin'' \<in> encoded_fields bubble_model"
    unfolding encoded_fields_def bubble_model_def
    by (auto simp: raw_field_def intro!: exI [of _ "raw_field ''Origin''"] exI [of _ COLOR])
  have proj: "projected_fields bubble_model = {''Origin''}"
    by (simp add: projected_fields_def selections_of_def bubble_model_def cars_model_def
        sel_pt_def sel_brush_def)
  have "Some ''Cylinders'' \<notin> Some ` projected_fields bubble_model"
    unfolding proj by simp
  with size have differ: "Some ` projected_fields bubble_model \<noteq> encoded_fields bubble_model"
    by blast
  have sub: "Some ` projected_fields bubble_model \<subseteq> encoded_fields bubble_model"
    unfolding proj using color by simp
  have projects: "some_selection_projects bubble_model"
    by (simp add: some_selection_projects_def selections_of_def bubble_model_def cars_model_def
        sel_pt_def)
  have root: "\<not> has_parent bubble_model"
    by (simp add: bubble_model_def cars_model_def)
  have "interactiveLegendExists quoted bubble_model \<noteq> []"
    using interactiveLegendExists_nonempty [of quoted bubble_model] sub projects root by blast
  with differ show ?thesis
    unfolding spec_fields_exactly_covered_def by blast
qed

section \<open>Properties of the interactive-legend encode block\<close>

lemma map_of_obj_set:
  "map_of (obj_set kvs k v) k' = (if k' = k then Some v else map_of kvs k')"
  by (induction kvs) auto

lemma indexOf_present: "indexOf xs v > -1 \<longleftrightarrow> v \<in> set xs"
  using indexOf_absent [of xs v] indexOf_ge [of xs v] by auto

lemma pick_selection_index:
  "fst acc > 0 \<longrightarrow> (\<exists>i. snd acc = Some i \<and> i \<in> snd ` set xs0) \<Longrightarrow>
   set xs \<subseteq> set xs0 \<Longrightarrow>
   fst (fold (pick_selection field) xs acc) > 0 \<longrightarrow>
     (\<exists>i. snd (fold (pick_selection field) xs acc) = Some i \<and> i \<in> snd ` set xs0)"
proof (induction xs arbitrary: acc)
  case Nil
  then show ?case by simp
next
  case (Cons x xs)
  have "fst (pick_selection field x acc) > 0 \<longrightarrow>
      (\<exists>i. snd (pick_selection field x acc) = Some i \<and> i \<in> snd ` set xs0)"
    using Cons.prems by (auto simp: pick_selection_def)
  then show ?case
    using Cons.IH [of "pick_selection field x acc"] Cons.prems(2) by simp
qed

lemma pick_selection_mono: "fst acc \<le> fst (fold (pick_selection field) xs acc)"
proof (induction xs arbitrary: acc)
  case Nil
  then show ?case by simp
next
  case (Cons x xs)
  have "fst acc \<le> fst (pick_selection field x acc)"
    by (simp add: pick_selection_def)
  then show ?case
    using Cons.IH [of "pick_selection field x acc"] by simp
qed

lemma pick_selection_found:
  "(s, i) \<in> set xs \<Longrightarrow> field \<in> Some ` set (is_fields s) \<Longrightarrow>
   fst (fold (pick_selection field) xs acc) > 0"
proof (induction xs arbitrary: acc)
  case Nil
  then show ?case by simp
next
  case (Cons x xs)
  show ?case
  proof (cases "x = (s, i)")
    case True
    have len: "0 < length (is_fields s)"
      using Cons.prems(2) by auto
    have idx: "indexOf (map Some (is_fields s)) field > -1"
      using Cons.prems(2) by (simp add: indexOf_present)
    have "fst (pick_selection field x acc) > 0"
    proof (cases "fst acc < length (is_fields s)")
      case True
      with idx \<open>x = (s, i)\<close> have "pick_selection field x acc = (length (is_fields s), Some i)"
        by (simp add: pick_selection_def)
      with len show ?thesis by simp
    next
      case False
      with len have "0 < fst acc" by linarith
      moreover from False \<open>x = (s, i)\<close> have "pick_selection field x acc = acc"
        by (simp add: pick_selection_def)
      ultimately show ?thesis by simp
    qed
    then show ?thesis
      using pick_selection_mono [of "pick_selection field x acc" field xs] by simp
  next
    case False
    then show ?thesis
      using Cons by simp
  qed
qed

lemma binder_applies:
  assumes ch: "is_legend_channel channel"
    and fd: "fieldDef m channel = Some fd" "fd_field fd = Some f"
    and sel: "s \<in> set sels" "f \<in> set (is_fields s)"
  shows "\<exists>i < length sels.
    updateInteractiveLegendComponent m enc channel sels = update_parts channel (sels ! i) f enc"
proof -
  let ?xs = "zip sels [0..<length sels]"
  let ?r = "fold (pick_selection (Some f)) ?xs (0, None)"
  obtain i where i: "i < length sels" "sels ! i = s"
    using sel(1) by (auto simp: in_set_conv_nth)
  then have "(s, i) \<in> set ?xs"
    by (auto simp: set_zip intro!: exI [of _ i])
  then have pos: "fst ?r > 0"
    using pick_selection_found [of s i ?xs "Some f"] sel(2) by simp
  have "fst ?r > 0 \<longrightarrow> (\<exists>j. snd ?r = Some j \<and> j \<in> snd ` set ?xs)"
    by (rule pick_selection_index) simp_all
  with pos obtain j where j: "snd ?r = Some j" "j \<in> snd ` set ?xs"
    by blast
  then have "j < length sels"
    by (auto simp: set_zip)
  moreover have "updateInteractiveLegendComponent m enc channel sels =
      update_parts channel (sels ! j) f enc"
    using ch fd pos j(1) by (simp add: updateInteractiveLegendComponent_def Let_def)
  ultimately show ?thesis by blast
qed

lemma update_part_typed:
  assumes "part_typed enc part"
  shows "update_part channel sel f part enc =
       Inr (obj_set enc part (rewritten_part channel sel f part (start_update enc part)))"
proof (cases "map_of enc part")
  case None
  then show ?thesis
    by (simp add: update_part_def fabricated_update_def Let_def start_update_def rewritten_part_def)
next
  case (Some p)
  with assms obtain u where u: "js_get p ''update'' = Some (JObj u)"
    by (auto simp: part_typed_def split: option.splits json.splits)
  show ?thesis
    using Some u by (simp add: update_part_def Let_def start_update_def rewritten_part_def)
qed

lemma part_typed_obj_set:
  "part \<noteq> part' \<Longrightarrow> part_typed (obj_set enc part' v) part = part_typed enc part"
  by (simp add: part_typed_def map_of_obj_set)

lemma start_update_obj_set:
  "part \<noteq> part' \<Longrightarrow> start_update (obj_set enc part' v) part = start_update enc part"
  by (simp add: start_update_def map_of_obj_set)

lemma update_parts_steps:
  "update_parts channel sel f enc =
     (case update_part channel sel f ''labels'' enc of
        Inl e \<Rightarrow> Inl e
      | Inr enc1 \<Rightarrow> update_part channel sel f ''symbols'' enc1)"
  by (simp add: update_parts_def)

lemma update_parts_typed:
  assumes "part_typed enc ''labels''" and "part_typed enc ''symbols''"
  shows "update_parts channel sel f enc =
       Inr (obj_set
              (obj_set enc ''labels''
                 (rewritten_part channel sel f ''labels'' (start_update enc ''labels'')))
              ''symbols''
              (rewritten_part channel sel f ''symbols'' (start_update enc ''symbols'')))"
proof -
  let ?enc1 = "obj_set enc ''labels''
      (rewritten_part channel sel f ''labels'' (start_update enc ''labels''))"
  have "part_typed ?enc1 ''symbols''"
    using assms(2) by (simp add: part_typed_obj_set)
  then have "update_part channel sel f ''symbols'' ?enc1 =
      Inr (obj_set ?enc1 ''symbols''
        (rewritten_part channel sel f ''symbols'' (start_update ?enc1 ''symbols'')))"
    by (rule update_part_typed)
  then show ?thesis
    unfolding update_parts_steps update_part_typed [OF assms(1)]
    by (simp add: start_update_obj_set)
qed





lemma rewritten_name_flag:
  "js_get (rewritten_part channel sel f part u) ''name'' = Some (JStr (part @ ''_'' @ f @ ''_legend''))"
  "js_get (rewritten_part channel sel f part u) ''interactive'' = Some (JBool True)"
  by (simp_all add: rewritten_part_def LEGEND_def)



text \<open>
  C9. When the binder rewrites the legend of a channel (color, opacity, size or shape with a
  field that a selection of the list projects), and the incoming parts are as their type
  says, it returns an encode block in which the parts \<^verbatim>\<open>labels\<close> and \<^verbatim>\<open>symbols\<close> are named
  \<^verbatim>\<open><part>_<field>_legend\<close>, by the part and the field of the channel, and are flagged
  \<^verbatim>\<open>interactive: true\<close>.
\<close>

theorem interactive_parts_named:
  assumes "is_legend_channel channel"
    and "fieldDef m channel = Some fd" and "fd_field fd = Some f"
    and "s \<in> set sels" and "f \<in> set (is_fields s)"
    and "part_typed enc ''labels''" and "part_typed enc ''symbols''"
  shows "\<exists>enc'. updateInteractiveLegendComponent m enc channel sels = Inr enc'
    \<and> part_name enc' ''labels'' = Some (JStr (''labels_'' @ f @ ''_legend''))
    \<and> part_interactive enc' ''labels'' = Some (JBool True)
    \<and> part_name enc' ''symbols'' = Some (JStr (''symbols_'' @ f @ ''_legend''))
    \<and> part_interactive enc' ''symbols'' = Some (JBool True)"
proof -
  obtain i where "updateInteractiveLegendComponent m enc channel sels =
      update_parts channel (sels ! i) f enc"
    using binder_applies [OF assms(1-5)] by blast
  then show ?thesis
    unfolding update_parts_typed [OF assms(6,7)]
    by (simp add: part_name_def part_interactive_def map_of_obj_set rewritten_name_flag)
qed



lemma twin_model_fields:
  "is_legend_channel COLOR" "is_legend_channel SIZE" "is_legend_channel OPACITY"
  "fieldDef twin_model COLOR = Some (raw_field ''Origin'')"
  "fieldDef twin_model SIZE = Some (raw_field ''Origin'')"
  "fieldDef twin_model OPACITY = Some (raw_field ''Origin'')"
  "fd_field (raw_field ''Origin'') = Some ''Origin''"
  "pt_interactive \<in> set [pt_interactive]"
  "''Origin'' \<in> set (is_fields pt_interactive)"
  "part_typed [] part"
  by (simp_all add: twin_model_def raw_field_def pt_interactive_def part_typed_def)

theorem interactive_parts_named_witness:
  "rewritten_name twin_model COLOR ''labels'' = Some (JStr ''labels_Origin_legend'')
   \<and> rewritten_name twin_model COLOR ''symbols'' = Some (JStr ''symbols_Origin_legend'')
   \<and> (case updateInteractiveLegendComponent twin_model [] COLOR [pt_interactive] of
         Inl e \<Rightarrow> None
       | Inr legendEncode \<Rightarrow> part_interactive legendEncode ''symbols'') = Some (JBool True)"
  using interactive_parts_named [OF twin_model_fields(1) twin_model_fields(4) twin_model_fields(7)
      twin_model_fields(8) twin_model_fields(9) twin_model_fields(10) twin_model_fields(10)]
  by (auto simp: rewritten_name_def)

text \<open>
  The specification has the name qualified by the channel. The color legend and
  the size legend of one field get the same names for their parts: the name is made of the
  part and the field, and the channel is no part of it.
\<close>

theorem interactive_parts_named_counterexample:
  "COLOR \<noteq> SIZE
   \<and> rewritten_name twin_model COLOR ''symbols'' = rewritten_name twin_model SIZE ''symbols''
   \<and> rewritten_name twin_model COLOR ''labels'' = rewritten_name twin_model SIZE ''labels''
   \<and> rewritten_name twin_model SIZE ''symbols'' = Some (JStr ''symbols_Origin_legend'')
   \<and> rewritten_name twin_model SIZE ''labels'' = Some (JStr ''labels_Origin_legend'')"
proof -
  have name: "rewritten_name twin_model channel part = Some (JStr (part @ ''_Origin_legend''))"
    if ch: "is_legend_channel channel" "fieldDef twin_model channel = Some (raw_field ''Origin'')"
      and part: "part = ''labels'' \<or> part = ''symbols''"
    for channel part
  proof -
    obtain i where "updateInteractiveLegendComponent twin_model [] channel [pt_interactive] =
        update_parts channel ([pt_interactive] ! i) ''Origin'' []"
      using binder_applies [OF ch twin_model_fields(7) twin_model_fields(8) twin_model_fields(9)]
      by blast
    then show ?thesis
      unfolding rewritten_name_def update_parts_typed [OF twin_model_fields(10) twin_model_fields(10)]
      using part by (auto simp: part_name_def map_of_obj_set rewritten_name_flag)
  qed
  show ?thesis
    by (simp add: name twin_model_fields)
qed


section \<open>Properties of the legend merge\<close>

lemma map_of_obj_delete:
  "map_of (obj_delete kvs k) k' = (if k' = k then None else map_of kvs k')"
  by (induction kvs) (auto simp: obj_delete_def)

text \<open>
  C3. When both legend components carry an explicit \<^verbatim>\<open>orient\<close> and the two values differ,
  \<^verbatim>\<open>mergeLegendComponent\<close> returns \<^verbatim>\<open>undefined\<close>; and where \<^verbatim>\<open>parseNonUnitLegend\<close> tries that
  merge for a channel that resolves to shared, it leaves the channel's legend resolve at
  independent and the parent without a legend entry for the channel.
\<close>

theorem orient_conflict_fails:
  assumes "ex_explicit (getWithExplicit ml ''orient'')"
    and "ex_explicit (getWithExplicit cl ''orient'')"
    and "ex_value (getWithExplicit ml ''orient'') \<noteq> ex_value (getWithExplicit cl ''orient'')"
  shows "mergeLegendComponent props mt dtb (Some ml) cl = None
    \<and> (parseGuideResolve (cm_resolve st) channel = Shared
         \<and> map_of (cm_legends st) channel = Some ml \<longrightarrow>
       map_of (cm_legends (merge_channel parseGuideResolve props mt dtb (channel, cl) st)) channel
         = None
       \<and> rs_legend (cm_resolve (merge_channel parseGuideResolve props mt dtb (channel, cl) st))
           channel = Some Independent)"
proof -
  have "mergeLegendComponent props mt dtb (Some ml) cl = None"
    using assms by (simp add: mergeLegendComponent_def)
  then show ?thesis
    by (simp add: merge_channel_def Let_def map_of_obj_delete)
qed


theorem orient_conflict_fails_witness:
  "mergeLegendComponent legend_properties keep_first keep_first_of (Some left_legend) right_legend
     = None
   \<and> cm_legends (parseNonUnitLegend guide_resolve legend_properties keep_first keep_first_of layered)
     = []
   \<and> rs_legend (cm_resolve
       (parseNonUnitLegend guide_resolve legend_properties keep_first keep_first_of layered)) COLOR
     = Some Independent
   \<and> cm_children (parseNonUnitLegend guide_resolve legend_properties keep_first keep_first_of layered)
     = [[(COLOR, left_legend)], [(COLOR, right_legend)]]"
proof -
  define st1 where "st1 = merge_channel guide_resolve legend_properties keep_first keep_first_of
      (COLOR, left_legend) layered"
  define st2 where "st2 = merge_channel guide_resolve legend_properties keep_first keep_first_of
      (COLOR, right_legend) st1"
  have st1: "cm_legends st1 = [(COLOR, left_legend)]" "rs_legend (cm_resolve st1) COLOR = Some Shared"
    "rs_scale (cm_resolve st1) = (\<lambda>c. None)" "cm_children st1 = cm_children layered"
    by (simp_all add: st1_def merge_channel_def layered_def guide_resolve_def
        mergeLegendComponent_def clone_def Let_def)
  have shared: "guide_resolve (cm_resolve st1) COLOR = Shared"
    by (simp add: guide_resolve_def st1)
  have orients: "ex_explicit (getWithExplicit left_legend ''orient'')"
    "ex_explicit (getWithExplicit right_legend ''orient'')"
    "ex_value (getWithExplicit left_legend ''orient'')
       \<noteq> ex_value (getWithExplicit right_legend ''orient'')"
    by (simp_all add: getWithExplicit_def left_legend_def right_legend_def)
  have step: "mergeLegendComponent legend_properties keep_first keep_first_of (Some left_legend)
      right_legend = None"
    "map_of (cm_legends st2) COLOR = None"
    "rs_legend (cm_resolve st2) COLOR = Some Independent"
    using orient_conflict_fails [OF orients, of legend_properties keep_first keep_first_of
        guide_resolve st1 COLOR] shared st1(1)
    by (simp_all add: st2_def)
  have legends2: "cm_legends st2 = []"
    by (simp add: st2_def merge_channel_def Let_def st1 shared step(1) obj_delete_def)
  have children2: "cm_children st2 = cm_children layered"
    by (simp add: st2_def merge_channel_def Let_def st1 shared step(1))
  have run: "parseNonUnitLegend guide_resolve legend_properties keep_first keep_first_of layered =
      st2\<lparr>cm_children := fold (drop_shared (cm_resolve st2)) (map fst (cm_legends st2))
        (cm_children st2)\<rparr>"
    by (simp add: parseNonUnitLegend_def Let_def layered_def st2_def st1_def)
  show ?thesis
    unfolding run using step by (simp add: legends2 children2 layered_def)
qed














section \<open>Properties of the interactive-legend signals\<close>

lemma signal_named_find: "signal_named n sigs = List.find (\<lambda>s. sg_name s = n) sigs"
proof (induction sigs)
  case Nil
  then show ?case by (simp add: signal_named_def)
next
  case (Cons s sigs)
  then show ?case
    by (cases "find_signal n sigs") (auto simp: signal_named_def)
qed

lemma find_signal_Some:
  "find_signal n sigs = Some i \<Longrightarrow> i < length sigs \<and> sg_name (sigs ! i) = n"
proof (induction sigs arbitrary: i)
  case Nil
  then show ?case by simp
next
  case (Cons s sigs)
  then show ?case
    by (cases "sg_name s = n") auto
qed

lemma signal_named_update_other:
  "i < length sigs \<Longrightarrow> sg_name (sigs ! i) \<noteq> n \<Longrightarrow> sg_name s' \<noteq> n \<Longrightarrow>
   signal_named n (sigs[i := s']) = signal_named n sigs"
  unfolding signal_named_find
proof (induction sigs arbitrary: i)
  case Nil
  then show ?case by simp
next
  case (Cons s sigs)
  then show ?case
    by (cases i) auto
qed

lemma signal_named_update_first:
  "find_signal n sigs = Some i \<Longrightarrow> sg_name s' = n \<Longrightarrow> signal_named n (sigs[i := s']) = Some s'"
  unfolding signal_named_find
proof (induction sigs arbitrary: i)
  case Nil
  then show ?case by simp
next
  case (Cons s sigs)
  then show ?case
    by (cases "sg_name s = n") auto
qed

lemma signal_named_append_other:
  "\<forall>s \<in> set pre. sg_name s \<noteq> n \<Longrightarrow> signal_named n (pre @ sigs) = signal_named n sigs"
  unfolding signal_named_find by (induction pre) auto

lemma set_first_update_name:
  "set_first_update f s = Inr s' \<Longrightarrow> sg_name s' = sg_name s"
  by (auto simp: set_first_update_def split: option.splits list.splits)

lemma push_handler_name: "sg_name (push_handler h s) = sg_name s"
  by (simp add: push_handler_def)

lemma fold_unshift: "fold (\<lambda>x xs. g x # xs) fs base = rev (map g fs) @ base"
  by (induction fs arbitrary: base) auto

lemma toggle_not_tuple: "a @ ''_toggle'' \<noteq> b @ TUPLE"
proof
  assume "a @ ''_toggle'' = b @ TUPLE"
  then have "rev (a @ ''_toggle'') = rev (b @ TUPLE)"
    by simp
  then show False
    by (simp add: TUPLE_def)
qed

lemma legend_not_tuple: "a @ ''_'' @ f @ ''_legend'' \<noteq> b @ TUPLE"
proof
  assume "a @ ''_'' @ f @ ''_legend'' = b @ TUPLE"
  then have "rev (a @ ''_'' @ f @ ''_legend'') = rev (b @ TUPLE)"
    by simp
  then show False
    by (simp add: TUPLE_def)
qed

lemma legend_not_tuple_cons: "a @ CHR ''_'' # f @ ''_legend'' = b @ TUPLE \<Longrightarrow> False"
  using legend_not_tuple [of a f b] by simp

text \<open>A step for another selection leaves the tuple signal of this one alone.\<close>

lemma legend_signals_step_other:
  assumes step: "legend_signals_step unit fs sel' sigs = Inr sigs'"
    and other: "is_name sel' \<noteq> name"
  shows "signal_named (name @ TUPLE) sigs' = signal_named (name @ TUPLE) sigs"
proof -
  let ?n = "name @ TUPLE"
  let ?ignore = "ignoreLegendExpression fs"
  from step obtain i where i: "find_signal (is_name sel' @ TUPLE) sigs = Some i"
    by (auto simp: legend_signals_step_def Let_def split: option.splits)
  then have ilen: "i < length sigs" and iname: "sg_name (sigs ! i) = is_name sel' @ TUPLE"
    using find_signal_Some by blast+
  from step i obtain signal1 where s1: "set_first_update (\<lambda>u. ?ignore @ u) (sigs ! i) = Inr signal1"
    by (auto simp: legend_signals_step_def Let_def split: sum.splits)
  then have s1name: "sg_name signal1 = is_name sel' @ TUPLE"
    using set_first_update_name iname by fastforce
  have neq: "is_name sel' @ TUPLE \<noteq> ?n"
    using other by simp
  have base: "signal_named ?n (sigs[i := s]) = signal_named ?n sigs"
    if "sg_name s = is_name sel' @ TUPLE" for s
    using signal_named_update_other [OF ilen, of ?n s] iname neq that by simp
  show ?thesis
  proof (cases "length (is_fields sel') \<noteq> 1")
    case False
    then have "sigs' = sigs[i := push_handler
          \<lparr>h_events = JStr (eventExpression (is_fields sel')),
           h_update = ''{unit: '' @ unit @ '', fields: '' @ is_name sel'
             @ ''_tuple_fields, values: [datum.value]}''\<rparr> signal1]"
      using step i s1 by (simp add: legend_signals_step_def Let_def)
    then show ?thesis
      using base [of "push_handler
          \<lparr>h_events = JStr (eventExpression (is_fields sel')),
           h_update = ''{unit: '' @ unit @ '', fields: '' @ is_name sel'
             @ ''_tuple_fields, values: [datum.value]}''\<rparr> signal1"]
      by (simp add: push_handler_name s1name)
  next
    case True
    define pre where "pre = rev (map (field_legend_signal ?ignore (is_name sel')) (is_fields sel'))"
    define signals1 where "signals1 = pre @ sigs[i := signal1]"
    define signal2 where "signal2 = push_handler
        \<lparr>h_events = JStr (eventExpression (is_fields sel')),
         h_update = join '' && '' (map (\<lambda>field. is_name sel' @ ''_'' @ field @ ''_legend'')
              (is_fields sel')) @ '' ? {unit: '' @ unit
           @ '', fields: '' @ is_name sel' @ ''_tuple_fields, values: [ ''
           @ join '','' (map (\<lambda>field. is_name sel' @ ''_'' @ field @ ''_legend'')
              (is_fields sel')) @ '' ]} : '' @ sg_name signal1\<rparr> signal1"
    define signals2 where "signals2 = signals1[i + length (is_fields sel') := signal2]"
    have fold1: "fold (\<lambda>field sigs. field_legend_signal ?ignore (is_name sel') field # sigs)
        (is_fields sel') (sigs[i := signal1]) = signals1"
      by (simp add: fold_unshift signals1_def pre_def)
    from step i s1 True fold1 obtain j toggleSignal where
      j: "find_signal (is_name sel' @ ''_toggle'') signals2 = Some j"
        and tg: "set_first_update (\<lambda>u. slice_0_minus4 ?ignore @ '' ? event.shiftKey : false'')
          (signals2 ! j) = Inr toggleSignal"
        and res: "sigs' = signals2[j := toggleSignal]"
      by (auto simp: legend_signals_step_def Let_def signals2_def signal2_def
          split: option.splits sum.splits)
    have prenames: "\<forall>s \<in> set pre. sg_name s \<noteq> ?n"
      by (auto simp: pre_def field_legend_signal_def dest: legend_not_tuple_cons)
    have a: "signal_named ?n signals1 = signal_named ?n sigs"
      unfolding signals1_def using signal_named_append_other [OF prenames] base [OF s1name]
      by simp
    have len1: "i + length (is_fields sel') < length signals1"
      using ilen by (simp add: signals1_def pre_def)
    have at1: "signals1 ! (i + length (is_fields sel')) = signal1"
      using ilen by (simp add: signals1_def pre_def nth_append)
    have s2name: "sg_name signal2 = is_name sel' @ TUPLE"
      by (simp add: signal2_def push_handler_name s1name)
    have b: "signal_named ?n signals2 = signal_named ?n signals1"
      unfolding signals2_def
      using signal_named_update_other [OF len1, of ?n signal2] at1 s1name s2name neq by simp
    have jlen: "j < length signals2" and jname: "sg_name (signals2 ! j) = is_name sel' @ ''_toggle''"
      using find_signal_Some [OF j] by simp_all
    have tgname: "sg_name toggleSignal = is_name sel' @ ''_toggle''"
      using set_first_update_name [OF tg] jname by simp
    have c: "signal_named ?n sigs' = signal_named ?n signals2"
      unfolding res
      using signal_named_update_other [OF jlen, of ?n toggleSignal] jname tgname
        toggle_not_tuple [of "is_name sel'" name]
      by simp
    show ?thesis
      using a b c by simp
  qed
qed

text \<open>The step for a selection with a single field.\<close>

lemma legend_signals_step_single:
  assumes single: "is_fields sel = [field]"
    and named: "signal_named (is_name sel @ TUPLE) sigs = Some sg"
    and on: "sg_on sg = Some (h # hs)"
  shows "\<exists>sigs'. legend_signals_step unit fs sel sigs = Inr sigs'
    \<and> signal_named (is_name sel @ TUPLE) sigs' =
        Some (sg\<lparr>sg_on := Some (h\<lparr>h_update := ignoreLegendExpression fs @ h_update h\<rparr> # hs @
          [\<lparr>h_events = JStr (''@symbols_'' @ field @ ''_legend:click, @labels_'' @ field
              @ ''_legend:click, ''),
            h_update = ''{unit: '' @ unit @ '', fields: '' @ is_name sel
              @ ''_tuple_fields, values: [datum.value]}''\<rparr>])\<rparr>)"
proof -
  from named obtain i where i: "find_signal (is_name sel @ TUPLE) sigs = Some i" "sigs ! i = sg"
    by (auto simp: signal_named_def split: option.splits)
  have name: "sg_name sg = is_name sel @ TUPLE"
    using find_signal_Some [OF i(1)] i(2) by simp
  let ?sg' = "sg\<lparr>sg_on := Some (h\<lparr>h_update := ignoreLegendExpression fs @ h_update h\<rparr> # hs @
          [\<lparr>h_events = JStr (''@symbols_'' @ field @ ''_legend:click, @labels_'' @ field
              @ ''_legend:click, ''),
            h_update = ''{unit: '' @ unit @ '', fields: '' @ is_name sel
              @ ''_tuple_fields, values: [datum.value]}''\<rparr>])\<rparr>"
  have "legend_signals_step unit fs sel sigs = Inr (sigs[i := ?sg'])"
    using single i on
    by (simp add: legend_signals_step_def Let_def set_first_update_def push_handler_def
        eventExpression_def event_step_def LEGEND_def)
  moreover have "signal_named (is_name sel @ TUPLE) (sigs[i := ?sg']) = Some ?sg'"
    using signal_named_update_first [OF i(1), of ?sg'] name by simp
  ultimately show ?thesis by simp
qed

lemma fold_step_Inl:
  "fold (\<lambda>selection r. case r of Inl e \<Rightarrow> Inl e
      | Inr sigs \<Rightarrow> legend_signals_step unit fs selection sigs) sels (Inl e) = Inl e"
  by (induction sels) simp_all

lemma fold_step_other:
  "fold (\<lambda>selection r. case r of Inl e \<Rightarrow> Inl e
      | Inr sigs \<Rightarrow> legend_signals_step unit fs selection sigs) sels (Inr sigs) = Inr out \<Longrightarrow>
   name \<notin> is_name ` set sels \<Longrightarrow>
   signal_named (name @ TUPLE) out = signal_named (name @ TUPLE) sigs"
proof (induction sels arbitrary: sigs)
  case Nil
  then show ?case by simp
next
  case (Cons sel' sels)
  show ?case
  proof (cases "legend_signals_step unit fs sel' sigs")
    case (Inl e)
    then show ?thesis
      using Cons.prems(1) by (simp add: fold_step_Inl)
  next
    case (Inr sigs1)
    then have "signal_named (name @ TUPLE) sigs1 = signal_named (name @ TUPLE) sigs"
      using legend_signals_step_other [of unit fs sel' sigs sigs1 name] Cons.prems(2) by auto
    moreover have "signal_named (name @ TUPLE) out = signal_named (name @ TUPLE) sigs1"
      using Cons.IH [of sigs1] Cons.prems Inr by simp
    ultimately show ?thesis by simp
  qed
qed

lemma fold_step_single:
  assumes "fold (\<lambda>selection r. case r of Inl e \<Rightarrow> Inl e
      | Inr sigs \<Rightarrow> legend_signals_step unit fs selection sigs) sels (Inr sigs) = Inr out"
    and "distinct (map is_name sels)"
    and "sel \<in> set sels" and "is_fields sel = [field]"
    and "signal_named (is_name sel @ TUPLE) sigs = Some sg" and "sg_on sg = Some (h # hs)"
  shows "signal_named (is_name sel @ TUPLE) out =
        Some (sg\<lparr>sg_on := Some (h\<lparr>h_update := ignoreLegendExpression fs @ h_update h\<rparr> # hs @
          [\<lparr>h_events = JStr (''@symbols_'' @ field @ ''_legend:click, @labels_'' @ field
              @ ''_legend:click, ''),
            h_update = ''{unit: '' @ unit @ '', fields: '' @ is_name sel
              @ ''_tuple_fields, values: [datum.value]}''\<rparr>])\<rparr>)"
  using assms
proof (induction sels arbitrary: sigs)
  case Nil
  then show ?case by simp
next
  case (Cons sel' sels)
  show ?case
  proof (cases "sel' = sel")
    case True
    obtain sigs1 where s1: "legend_signals_step unit fs sel sigs = Inr sigs1"
      and named1: "signal_named (is_name sel @ TUPLE) sigs1 =
        Some (sg\<lparr>sg_on := Some (h\<lparr>h_update := ignoreLegendExpression fs @ h_update h\<rparr> # hs @
          [\<lparr>h_events = JStr (''@symbols_'' @ field @ ''_legend:click, @labels_'' @ field
              @ ''_legend:click, ''),
            h_update = ''{unit: '' @ unit @ '', fields: '' @ is_name sel
              @ ''_tuple_fields, values: [datum.value]}''\<rparr>])\<rparr>)"
      using legend_signals_step_single [OF Cons.prems(4,5,6), of unit fs] by blast
    have "is_name sel \<notin> is_name ` set sels"
      using Cons.prems(2) True by auto
    moreover have "fold (\<lambda>selection r. case r of Inl e \<Rightarrow> Inl e
      | Inr sigs \<Rightarrow> legend_signals_step unit fs selection sigs) sels (Inr sigs1) = Inr out"
      using Cons.prems(1) True s1 by simp
    ultimately show ?thesis
      using fold_step_other [of unit fs sels sigs1 out "is_name sel"] named1 by simp
  next
    case False
    then have mem: "sel \<in> set sels" and neq: "is_name sel' \<noteq> is_name sel"
      using Cons.prems(2,3) by auto
    show ?thesis
    proof (cases "legend_signals_step unit fs sel' sigs")
      case (Inl e)
      then show ?thesis
        using Cons.prems(1) by (simp add: fold_step_Inl)
    next
      case (Inr sigs1)
      then have "signal_named (is_name sel @ TUPLE) sigs1 = Some sg"
        using legend_signals_step_other [of unit fs sel' sigs sigs1 "is_name sel"] neq
          Cons.prems(5) by simp
      then show ?thesis
        using Cons.IH [of sigs1] Cons.prems Inr mem by simp
    qed
  qed
qed

lemma fold_step_returns:
  "distinct (map is_name sels) \<Longrightarrow>
   \<forall>s \<in> set sels. length (is_fields s) = 1 \<and>
      (\<exists>sg h hs. signal_named (is_name s @ TUPLE) sigs = Some sg \<and> sg_on sg = Some (h # hs)) \<Longrightarrow>
   \<exists>out. fold (\<lambda>selection r. case r of Inl e \<Rightarrow> Inl e
      | Inr sigs \<Rightarrow> legend_signals_step unit fs selection sigs) sels (Inr sigs) = Inr out"
proof (induction sels arbitrary: sigs)
  case Nil
  then show ?case by simp
next
  case (Cons sel sels)
  from Cons.prems(2) obtain field sg h hs where sel: "is_fields sel = [field]"
      "signal_named (is_name sel @ TUPLE) sigs = Some sg" "sg_on sg = Some (h # hs)"
    by (cases "is_fields sel") auto
  obtain sigs1 where s1: "legend_signals_step unit fs sel sigs = Inr sigs1"
    using legend_signals_step_single [OF sel, of unit fs] by blast
  have "\<forall>s \<in> set sels. length (is_fields s) = 1 \<and>
      (\<exists>sg h hs. signal_named (is_name s @ TUPLE) sigs1 = Some sg \<and> sg_on sg = Some (h # hs))"
  proof
    fix s
    assume s: "s \<in> set sels"
    then have "is_name sel \<noteq> is_name s"
      using Cons.prems(1) by auto
    then have "signal_named (is_name s @ TUPLE) sigs1 = signal_named (is_name s @ TUPLE) sigs"
      using legend_signals_step_other [OF s1] by simp
    then show "length (is_fields s) = 1 \<and>
      (\<exists>sg h hs. signal_named (is_name s @ TUPLE) sigs1 = Some sg \<and> sg_on sg = Some (h # hs))"
      using Cons.prems(2) s by simp
  qed
  then obtain out where "fold (\<lambda>selection r. case r of Inl e \<Rightarrow> Inl e
      | Inr sigs \<Rightarrow> legend_signals_step unit fs selection sigs) sels (Inr sigs1) = Inr out"
    using Cons.IH [of sigs1] Cons.prems(1) by auto
  then show ?case
    using s1 by simp
qed

text \<open>
  C5. Let a selection with exactly one projected field be among the selections that
  \<^verbatim>\<open>interactiveLegendExists\<close> returns for the model, the names of these being pairwise
  different. Whenever \<^verbatim>\<open>assembleUnitSelectionSignals\<close> returns, the tuple signal of the
  selection has got the ignore-legend guard over the legend mark names in front of the
  update of its first handler, and behind its handlers a new one whose events are
  \<^verbatim>\<open>@symbols_<field>_legend:click, @labels_<field>_legend:click, \<close> and whose update is
  \<^verbatim>\<open>{unit: <unitName>, fields: <name>_tuple_fields, values: [datum.value]}\<close>. And it does
  return when every one of these selections has one field and a tuple signal with a handler.
\<close>

theorem legend_click_updates_tuple:
  assumes "interactiveLegendExists stringValue m = selections"
    and "distinct (map is_name selections)"
    and "selection \<in> set selections" and "is_fields selection = [field]"
    and "forEachSelection m (selection_signals compilerOf transformsOf stringValue m) signals0
          = signals1"
    and "signal_named (is_name selection @ TUPLE) signals1 = Some sg"
    and "sg_on sg = Some (h # hs)"
  shows "(\<forall>out. assembleUnitSelectionSignals compilerOf transformsOf stringValue m signals0 = Inr out
      \<longrightarrow> signal_named (is_name selection @ TUPLE) out =
        Some (sg\<lparr>sg_on := Some
          (h\<lparr>h_update := ignoreLegendExpression (unique (flatten (map is_fields selections)))
               @ h_update h\<rparr> # hs @
           [\<lparr>h_events = JStr (''@symbols_'' @ field @ ''_legend:click, @labels_'' @ field
              @ ''_legend:click, ''),
             h_update = ''{unit: '' @ unitName m @ '', fields: '' @ is_name selection
               @ ''_tuple_fields, values: [datum.value]}''\<rparr>])\<rparr>))
    \<and> ((\<forall>s \<in> set selections. length (is_fields s) = 1 \<and>
           (\<exists>sg h hs. signal_named (is_name s @ TUPLE) signals1 = Some sg \<and> sg_on sg = Some (h # hs)))
       \<longrightarrow> (\<exists>out. assembleUnitSelectionSignals compilerOf transformsOf stringValue m signals0
              = Inr out))"
proof -
  have nonempty: "selections \<noteq> []"
    using assms(3) by auto
  have run: "assembleUnitSelectionSignals compilerOf transformsOf stringValue m signals0 =
      fold (\<lambda>selection r. case r of Inl e \<Rightarrow> Inl e
            | Inr sigs \<Rightarrow> legend_signals_step (unitName m)
                (unique (flatten (map is_fields selections))) selection sigs)
        selections (Inr signals1)"
    using assms(1,5) nonempty
    by (simp add: assembleUnitSelectionSignals_def assembleInteractiveLegendSignals_def Let_def)
  show ?thesis
    unfolding run
    using fold_step_single [OF _ assms(2,3,4,6,7)] fold_step_returns [OF assms(2)]
    by blast
qed

lemma interactive_cars: "interactiveLegendExists quoted cars_model = [pt_interactive]"
proof -
  have "some_selection_projects cars_model"
    by (simp add: some_selection_projects_def selections_of_def cars_model_def sel_pt_def)
  moreover have "\<not> has_parent cars_model"
    by (simp add: cars_model_def)
  moreover have "forEachSelection cars_model (push_selection quoted) [] = [pt_interactive]"
    by (simp add: forEachSelection_def cars_model_def push_selection_def sel_pt_def sel_brush_def
        pt_interactive_def STORE_def)
  ultimately show ?thesis
    using interactiveLegendExists_nonempty [of quoted cars_model]
    by (simp add: encoded_fields_cars projected_fields_cars)
qed

lemma unique_single: "unique [x] = [x]"
  by (simp add: unique_def)

theorem legend_click_updates_tuple_witness:
  "assembled_signal cars_model ''pt_tuple'' =
     Some \<lparr>sg_name = ''pt_tuple'', sg_value = None, sg_update = None,
       sg_on = Some
         [\<lparr>h_events = JStr ''click'',
           h_update = ''item().mark.name !== 'symbols_Origin_legend' && item().mark.name !== 'labels_Origin_legend' && datum ? {unit: \"view_1\"} : null''\<rparr>,
          \<lparr>h_events = JStr ''@symbols_Origin_legend:click, @labels_Origin_legend:click, '',
           h_update = ''{unit: \"view_1\", fields: pt_tuple_fields, values: [datum.value]}''\<rparr>]\<rparr>"
proof -
  let ?pt = "\<lparr>sg_name = ''pt_tuple'', sg_value = None, sg_update = None,
      sg_on = Some [\<lparr>h_events = JStr ''click'',
                     h_update = ''datum ? {unit: \"view_1\"} : null''\<rparr>]\<rparr>"
  define signals1 where "signals1 =
    forEachSelection cars_model
      (selection_signals (\<lambda>selCmpt. point_compiler) (\<lambda>selCmpt. []) quoted cars_model) []"
  have named: "signal_named (is_name pt_interactive @ TUPLE) signals1 = Some ?pt"
    by (simp add: signals1_def forEachSelection_def cars_model_def selection_signals_def
        point_compiler_def sel_pt_def sel_brush_def signal_named_def pt_interactive_def
        TUPLE_def MODIFY_def STORE_def quoted_def Let_def)
  have on: "sg_on ?pt = Some (\<lparr>h_events = JStr ''click'',
      h_update = ''datum ? {unit: \"view_1\"} : null''\<rparr> # [])"
    by simp
  have fields: "is_fields pt_interactive = [''Origin'']" "pt_interactive \<in> set [pt_interactive]"
    "distinct (map is_name [pt_interactive])"
    by (simp_all add: pt_interactive_def)
  have all: "\<forall>s \<in> set [pt_interactive]. length (is_fields s) = 1 \<and>
      (\<exists>sg h hs. signal_named (is_name s @ TUPLE) signals1 = Some sg \<and> sg_on sg = Some (h # hs))"
    using named by (simp add: pt_interactive_def)
  have guard: "ignoreLegendExpression (unique (flatten (map is_fields [pt_interactive]))) =
      ''item().mark.name !== 'symbols_Origin_legend' && item().mark.name !== 'labels_Origin_legend' && ''"
    by (simp add: flatten_def pt_interactive_def unique_single ignoreLegendExpression_def
        ignore_step_def LEGEND_def)
  have unit: "unitName cars_model = ''\"view_1\"''"
    by (simp add: cars_model_def quoted_def)
  note inst = legend_click_updates_tuple [OF interactive_cars fields(3) fields(2) fields(1)
      signals1_def [symmetric] named on]
  from inst all obtain out where out:
    "assembleUnitSelectionSignals (\<lambda>selCmpt. point_compiler) (\<lambda>selCmpt. []) quoted cars_model []
      = Inr out"
    by blast
  with inst have "signal_named (is_name pt_interactive @ TUPLE) out =
      Some (?pt\<lparr>sg_on := Some
          (\<lparr>h_events = JStr ''click'', h_update = ''datum ? {unit: \"view_1\"} : null''\<rparr>
             \<lparr>h_update := ignoreLegendExpression (unique (flatten (map is_fields [pt_interactive])))
               @ h_update \<lparr>h_events = JStr ''click'',
                   h_update = ''datum ? {unit: \"view_1\"} : null''\<rparr>\<rparr> # [] @
           [\<lparr>h_events = JStr (''@symbols_'' @ ''Origin'' @ ''_legend:click, @labels_'' @ ''Origin''
              @ ''_legend:click, ''),
             h_update = ''{unit: '' @ unitName cars_model @ '', fields: '' @ is_name pt_interactive
               @ ''_tuple_fields, values: [datum.value]}''\<rparr>])\<rparr>)"
    by blast
  then have "signal_named ''pt_tuple'' out =
     Some \<lparr>sg_name = ''pt_tuple'', sg_value = None, sg_update = None,
       sg_on = Some
         [\<lparr>h_events = JStr ''click'',
           h_update = ''item().mark.name !== 'symbols_Origin_legend' && item().mark.name !== 'labels_Origin_legend' && datum ? {unit: \"view_1\"} : null''\<rparr>,
          \<lparr>h_events = JStr ''@symbols_Origin_legend:click, @labels_Origin_legend:click, '',
           h_update = ''{unit: \"view_1\", fields: pt_tuple_fields, values: [datum.value]}''\<rparr>]\<rparr>"
    unfolding guard unit by (simp add: pt_interactive_def TUPLE_def)
  then show ?thesis
    by (simp add: assembled_signal_def out)
qed

end
